theory Spec2Isabelle
  imports Complex_Main "HOL-Library.Sublist"
begin

section \<open>Values of the script\<close>

subsection \<open>Decoded JSON\<close>

text \<open>
  What \<^verbatim>\<open>response.json()\<close> resolves to. A JSON number is decoded to a double: a finite
  double is written by its exact rational value, and an overflowing literal such as
  \<^verbatim>\<open>1e999\<close> decodes to an infinity. An object is the list of its members in the
  order of the text. Strings are lists of \<^typ>\<open>char\<close>; the script only searches them for
  an ASCII word.
\<close>

datatype js_number = Finite rat | PosInfinity | NegInfinity

datatype json =
    JNull
  | JBool bool
  | JNum js_number
  | JStr string
  | JArr "json list"
  | JObj "(string \<times> json) list"

text \<open>
  The value of a JavaScript expression over a payload is a \<^typ>\<open>json option\<close>:
  \<open>None\<close> is \<^verbatim>\<open>undefined\<close>, \<open>Some JNull\<close> is \<^verbatim>\<open>null\<close>.
\<close>

type_synonym js_value = "json option"

text \<open>
  Errors as values. \<open>Error m\<close> is \<^verbatim>\<open>new Error(m)\<close>, thrown by the script itself.
  \<open>TypeError\<close> is raised by the engine (reading a property of \<^verbatim>\<open>null\<close>, calling a
  value that is not a function, \<^verbatim>\<open>response.json()\<close> on a body that cannot be read to
  its end), \<open>SyntaxError\<close> by \<^verbatim>\<open>response.json()\<close> on a body that is not JSON,
  \<open>SystemError\<close> by a rejected \<^verbatim>\<open>fs\<close> call; the message text of these three is the
  engine's and is not modelled.
\<close>

datatype js_error = Error string | TypeError | SyntaxError | SystemError

subsection \<open>Property access\<close>

text \<open>
  \<^verbatim>\<open>JSON.parse\<close> keeps the last member of a repeated name.
\<close>

definition own_member :: "(string \<times> json) list \<Rightarrow> string \<Rightarrow> js_value" where
  "own_member kvs k = map_of (rev kvs) k"

text \<open>
  \<^verbatim>\<open>v.k\<close> on a value \<open>v\<close> that is neither \<^verbatim>\<open>null\<close> nor \<^verbatim>\<open>undefined\<close>, for the
  names the script reads by dot: \<^verbatim>\<open>cpanelresult\<close>, \<^verbatim>\<open>event\<close>, \<^verbatim>\<open>result\<close>,
  \<^verbatim>\<open>data\<close>, \<^verbatim>\<open>reason\<close>, \<^verbatim>\<open>status\<close>. None of them is a property of a string, a
  number, a boolean or an array, nor of \<^verbatim>\<open>Object.prototype\<close>, so only the own members
  of an object answer.
\<close>

fun get_member :: "json \<Rightarrow> string \<Rightarrow> js_value" where
  "get_member (JObj kvs) k = own_member kvs k"
| "get_member _ k = None"

text \<open>
  \<^verbatim>\<open>v[0]\<close> on such a value: the first element of an array, the first character of a
  string (as a string), the member \<^verbatim>\<open>"0"\<close> of an object.
\<close>

fun get_index0 :: "json \<Rightarrow> js_value" where
  "get_index0 (JArr xs) = (case xs of [] \<Rightarrow> None | x # _ \<Rightarrow> Some x)"
| "get_index0 (JStr s) = (case s of [] \<Rightarrow> None | c # _ \<Rightarrow> Some (JStr [c]))"
| "get_index0 (JObj kvs) = own_member kvs ''0''"
| "get_index0 _ = None"

text \<open>
  Optional chaining: \<^verbatim>\<open>a?.k\<close> and \<^verbatim>\<open>a?.[0]\<close> are \<^verbatim>\<open>undefined\<close> when \<open>a\<close> is
  \<^verbatim>\<open>null\<close> or \<^verbatim>\<open>undefined\<close>.
\<close>

definition opt_member :: "js_value \<Rightarrow> string \<Rightarrow> js_value" where
  "opt_member a k = (case a of None \<Rightarrow> None | Some v \<Rightarrow> if v = JNull then None else get_member v k)"

definition opt_index0 :: "js_value \<Rightarrow> js_value" where
  "opt_index0 a = (case a of None \<Rightarrow> None | Some v \<Rightarrow> if v = JNull then None else get_index0 v)"

text \<open>
  \<^verbatim>\<open>payload.k\<close>, with no \<^verbatim>\<open>?.\<close>: the payload is a decoded JSON value, never
  \<^verbatim>\<open>undefined\<close>, and reading a property of \<^verbatim>\<open>null\<close> raises.
\<close>

definition read_member :: "json \<Rightarrow> string \<Rightarrow> js_error + js_value" where
  "read_member payload k = (if payload = JNull then Inl TypeError else Inr (get_member payload k))"

text \<open>
  \<^verbatim>\<open>r?.includes('exists')\<close>. On a string it is \<^verbatim>\<open>String.prototype.includes\<close>, the
  substring test; on an array it is \<^verbatim>\<open>Array.prototype.includes\<close>, which looks for an
  element equal to the string. A number and a boolean have no \<^verbatim>\<open>includes\<close>, and an
  object decoded from JSON has at most a member of that name that is not a function: the
  call raises.
\<close>

fun opt_includes :: "js_value \<Rightarrow> string \<Rightarrow> js_error + js_value" where
  "opt_includes None x = Inr None"
| "opt_includes (Some JNull) x = Inr None"
| "opt_includes (Some (JStr s)) x = Inr (Some (JBool (sublist x s)))"
| "opt_includes (Some (JArr xs)) x = Inr (Some (JBool (JStr x \<in> set xs)))"
| "opt_includes (Some (JBool b)) x = Inl TypeError"
| "opt_includes (Some (JNum n)) x = Inl TypeError"
| "opt_includes (Some (JObj kvs)) x = Inl TypeError"

text \<open>The truth value of an expression used as a condition.\<close>

fun truthy :: "js_value \<Rightarrow> bool" where
  "truthy None = False"
| "truthy (Some JNull) = False"
| "truthy (Some (JBool b)) = b"
| "truthy (Some (JNum n)) = (n \<noteq> Finite 0)"
| "truthy (Some (JStr s)) = (s \<noteq> [])"
| "truthy (Some (JArr xs)) = True"
| "truthy (Some (JObj kvs)) = True"

text \<open>\<^verbatim>\<open>payload.cpanelresult?.event?.result\<close>\<close>

definition event_result :: "json \<Rightarrow> js_error + js_value" where
  "event_result payload =
     (case read_member payload ''cpanelresult'' of
        Inl e \<Rightarrow> Inl e
      | Inr c \<Rightarrow> Inr (opt_member (opt_member c ''event'') ''result''))"

text \<open>\<^verbatim>\<open>payload.cpanelresult?.data?.[0]?.reason?.includes('exists')\<close>\<close>

definition reason_includes_exists :: "json \<Rightarrow> js_error + js_value" where
  "reason_includes_exists payload =
     (case read_member payload ''cpanelresult'' of
        Inl e \<Rightarrow> Inl e
      | Inr c \<Rightarrow> opt_includes (opt_member (opt_index0 (opt_member c ''data'')) ''reason'') ''exists'')"

text \<open>\<^verbatim>\<open>payload.status\<close>\<close>

definition payload_status :: "json \<Rightarrow> js_error + js_value" where
  "payload_status payload = read_member payload ''status''"

subsection \<open>Numbers and paths as text\<close>

definition digit_char :: "nat \<Rightarrow> char" where
  "digit_char d = ''0123456789'' ! d"

text \<open>\<^verbatim>\<open>String(n)\<close> for a natural number: its decimal digits.\<close>

function string_of_nat :: "nat \<Rightarrow> string" where
  "string_of_nat n =
     (if n < 10 then [digit_char n] else string_of_nat (n div 10) @ [digit_char (n mod 10)])"
  by pat_completeness auto
termination
  by (relation "measure (\<lambda>n. n)") auto

declare string_of_nat.simps [simp del]

text \<open>\<^verbatim>\<open>s.padStart(2, '0')\<close>\<close>

definition padStart2 :: "string \<Rightarrow> string" where
  "padStart2 s = (if length s < 2 then replicate (2 - length s) CHR ''0'' @ s else s)"

text \<open>
  \<^verbatim>\<open>path.basename(p)\<close> of the POSIX \<^verbatim>\<open>path\<close> module: trailing separators are
  dropped, and what follows the last remaining separator is returned.
\<close>

definition basename :: "string \<Rightarrow> string" where
  "basename p =
     rev (takeWhile (\<lambda>c. c \<noteq> CHR ''/'') (dropWhile (\<lambda>c. c = CHR ''/'') (rev p)))"

text \<open>
  \<^verbatim>\<open>path.join(dir, name)\<close> on the arguments the script gives it: \<open>dir\<close> is the
  module's directory or the temporary directory below it (absolute, normalised, with no
  trailing separator but for the root), \<open>name\<close> a file name with no separator. On
  these \<^verbatim>\<open>path.join\<close> puts one separator between the two; its normalisation of other
  arguments is not modelled.
\<close>

definition path_join :: "string \<Rightarrow> string \<Rightarrow> string" where
  "path_join dir name = (if dir = ''/'' then dir @ name else dir @ ''/'' @ name)"

section \<open>The world of the script\<close>

subsection \<open>Requests and responses\<close>

text \<open>A \<^verbatim>\<open>File\<close> of a form: its name, its content type and its bytes.\<close>

datatype form_value = Field string | File string string string

type_synonym form_data = "(string \<times> form_value) list"

text \<open>
  \<^verbatim>\<open>form.set(k, v)\<close> replaces the first entry named \<open>k\<close> and drops the others, or
  appends when there is none; \<^verbatim>\<open>form.append(k, v)\<close> adds an entry at the end.
\<close>

definition form_set :: "form_data \<Rightarrow> string \<Rightarrow> form_value \<Rightarrow> form_data" where
  "form_set form k v =
     (if k \<in> fst ` set form
      then takeWhile (\<lambda>e. fst e \<noteq> k) form @ (k, v) #
           filter (\<lambda>e. fst e \<noteq> k) (tl (dropWhile (\<lambda>e. fst e \<noteq> k) form))
      else form @ [(k, v)])"

definition form_append :: "form_data \<Rightarrow> string \<Rightarrow> form_value \<Rightarrow> form_data" where
  "form_append form k v = form @ [(k, v)]"

text \<open>
  A call of \<^verbatim>\<open>fetch\<close>. The query is the list of entries of the
  \<^verbatim>\<open>URLSearchParams\<close> (its percent-encoded rendering is not modelled); \<open>url\<close> is the
  address before the \<^verbatim>\<open>?\<close>.
\<close>

record request =
  http_method :: string
  url :: string
  query :: "(string \<times> string) list"
  request_headers :: "(string \<times> string) list"
  body :: "form_data option"

text \<open>
  What \<^verbatim>\<open>response.json()\<close> does with the body of a response: it resolves with the
  decoded value, or rejects with a \<open>SyntaxError\<close> when the body is not JSON, or rejects
  with a \<open>TypeError\<close> when the body cannot be read to its end (the connection is cut
  while the body streams).
\<close>

datatype json_reading = Decoded json | NotJson | Unreadable

text \<open>
  A response: \<open>body_json\<close> is the outcome of \<^verbatim>\<open>response.json()\<close>, \<open>body_text\<close>
  what \<^verbatim>\<open>response.text()\<close> reads (\<open>None\<close>: it rejects).
\<close>

record response =
  status :: nat
  statusText :: string
  body_json :: json_reading
  body_text :: "string option"

definition ok :: "response \<Rightarrow> bool" where
  "ok r = (200 \<le> status r \<and> status r \<le> 299)"

text \<open>\<^verbatim>\<open>fetch\<close> resolves with a response or rejects with an error that has a message.\<close>

datatype fetch_result = Rejected string | Resolved response

subsection \<open>Effects\<close>

text \<open>
  What the script does to the outside, in order: console lines and requests.
  \<open>ConsoleErrorJson p\<close> is \<^verbatim>\<open>console.error(JSON.stringify(p, null, 2))\<close> and
  \<open>ConsoleErrorMessage e\<close> is \<^verbatim>\<open>console.error(e.message)\<close>.
\<close>

datatype event =
    ConsoleLog string
  | ConsoleError string
  | ConsoleErrorJson json
  | ConsoleErrorMessage js_error
  | ConsoleWarn string
  | Fetch request

datatype fs_op = Mkdir string | WriteFile string string | ReadFile string | Rm string

text \<open>
  The surroundings of a run, which the script does not control: \<open>net\<close> answers a
  request, given all the requests of the run up to and including it; \<open>fs_fault\<close> says
  which file system calls are rejected by the operating system.
\<close>

record environment =
  net :: "request list \<Rightarrow> fetch_result"
  fs_fault :: "fs_op \<Rightarrow> bool"

text \<open>The local file system (files with their content, directories) and the trace.\<close>

record world =
  files :: "string \<rightharpoonup> string"
  dirs :: "string set"
  events :: "event list"

text \<open>
  How a statement completes: normally, by a thrown error, or by \<^verbatim>\<open>process.exit(c)\<close>,
  which ends the process at once: no \<^verbatim>\<open>catch\<close> and no \<^verbatim>\<open>finally\<close> runs after it.
\<close>

datatype 'a completion = Return 'a | Throw js_error | Exit nat

type_synonym 'a io = "world \<Rightarrow> 'a completion \<times> world"

definition return_io :: "'a \<Rightarrow> 'a io" where
  "return_io x w = (Return x, w)"

definition throw_io :: "js_error \<Rightarrow> 'a io" where
  "throw_io e w = (Throw e, w)"

definition process_exit :: "nat \<Rightarrow> 'a io" where
  "process_exit c w = (Exit c, w)"

definition bind_io :: "'a io \<Rightarrow> ('a \<Rightarrow> 'b io) \<Rightarrow> 'b io" where
  "bind_io m f w =
     (case m w of
        (Return x, w') \<Rightarrow> f x w'
      | (Throw e, w') \<Rightarrow> (Throw e, w')
      | (Exit c, w') \<Rightarrow> (Exit c, w'))"

text \<open>A sequence of statements.\<close>

fun block :: "unit io list \<Rightarrow> unit io" where
  "block [] = return_io ()"
| "block (s # ss) = bind_io s (\<lambda>_. block ss)"

text \<open>An expression that may raise, evaluated as a statement.\<close>

definition eval_io :: "js_error + 'a \<Rightarrow> 'a io" where
  "eval_io r = (case r of Inl e \<Rightarrow> throw_io e | Inr v \<Rightarrow> return_io v)"

text \<open>
  \<^verbatim>\<open>try { b } catch (error) { h } finally { f }\<close>: \<open>h\<close> handles what \<open>b\<close> throws;
  \<open>f\<close> runs after \<open>b\<close> or \<open>h\<close> has returned or thrown, and what it throws
  replaces their completion. Nothing runs once the process has exited.
\<close>

definition try_catch_finally :: "unit io \<Rightarrow> (js_error \<Rightarrow> unit io) \<Rightarrow> unit io \<Rightarrow> unit io" where
  "try_catch_finally b h f w =
     (let (c1, w1) = (case b w of (Throw e, w') \<Rightarrow> h e w' | r \<Rightarrow> r)
      in case c1 of
           Exit c \<Rightarrow> (Exit c, w1)
         | _ \<Rightarrow> (case f w1 of (Return _, w2) \<Rightarrow> (c1, w2) | r \<Rightarrow> r))"

text \<open>\<^verbatim>\<open>try { b } catch (error) { h }\<close>\<close>

definition try_catch :: "unit io \<Rightarrow> (js_error \<Rightarrow> unit io) \<Rightarrow> unit io" where
  "try_catch b h w = (case b w of (Throw e, w') \<Rightarrow> h e w' | r \<Rightarrow> r)"

definition emit :: "event \<Rightarrow> unit io" where
  "emit e w = (Return (), w\<lparr>events := events w @ [e]\<rparr>)"

definition console_log :: "string \<Rightarrow> unit io" where
  "console_log s = emit (ConsoleLog s)"

definition console_error :: "string \<Rightarrow> unit io" where
  "console_error s = emit (ConsoleError s)"

definition console_warn :: "string \<Rightarrow> unit io" where
  "console_warn s = emit (ConsoleWarn s)"

text \<open>The requests of a trace, in order.\<close>

fun sent_requests :: "event list \<Rightarrow> request list" where
  "sent_requests [] = []"
| "sent_requests (Fetch r # es) = r # sent_requests es"
| "sent_requests (_ # es) = sent_requests es"

definition fetch :: "environment \<Rightarrow> request \<Rightarrow> fetch_result io" where
  "fetch env req w =
     (let w' = w\<lparr>events := events w @ [Fetch req]\<rparr>
      in (Return (net env (sent_requests (events w'))), w'))"

text \<open>\<^verbatim>\<open>response.json()\<close>\<close>

definition response_json :: "response \<Rightarrow> json io" where
  "response_json r =
     (case body_json r of
        Decoded payload \<Rightarrow> return_io payload
      | NotJson \<Rightarrow> throw_io SyntaxError
      | Unreadable \<Rightarrow> throw_io TypeError)"

text \<open>\<^verbatim>\<open>response.text().catch(() => 'Unable to read response')\<close>\<close>

definition response_text_or :: "response \<Rightarrow> string" where
  "response_text_or r = (case body_text r of None \<Rightarrow> ''Unable to read response'' | Some t \<Rightarrow> t)"

subsection \<open>The local file system\<close>

text \<open>\<open>lies_in d p\<close>: the path \<open>p\<close> is the directory \<open>d\<close> or lies below it.\<close>

definition lies_in :: "string \<Rightarrow> string \<Rightarrow> bool" where
  "lies_in d p = (p = d \<or> prefix (d @ ''/'') p)"

text \<open>
  \<^verbatim>\<open>fs.mkdir(p, { recursive: true })\<close>: no error when the directory exists. The
  parents are the directories down to the module's own, which exist.
\<close>

definition fs_mkdir :: "environment \<Rightarrow> string \<Rightarrow> unit io" where
  "fs_mkdir env p w =
     (if fs_fault env (Mkdir p) then (Throw SystemError, w)
      else (Return (), w\<lparr>dirs := insert p (dirs w)\<rparr>))"

text \<open>
  \<^verbatim>\<open>fs.writeFile(p, content)\<close> makes or overwrites the file; \<^verbatim>\<open>fs.readFile(p)\<close>
  gives the bytes of a file and is rejected when there is none.
\<close>

definition fs_writeFile :: "environment \<Rightarrow> string \<Rightarrow> string \<Rightarrow> unit io" where
  "fs_writeFile env p content w =
     (if fs_fault env (WriteFile p content) then (Throw SystemError, w)
      else (Return (), w\<lparr>files := (files w)(p \<mapsto> content)\<rparr>))"

definition fs_readFile :: "environment \<Rightarrow> string \<Rightarrow> string io" where
  "fs_readFile env p w =
     (if fs_fault env (ReadFile p) then (Throw SystemError, w)
      else case files w p of None \<Rightarrow> (Throw SystemError, w) | Some content \<Rightarrow> (Return content, w))"

text \<open>
  \<^verbatim>\<open>fs.rm(d, { recursive: true, force: true })\<close>: the directory goes with all below
  it; a missing directory is no error.
\<close>

definition fs_rm :: "environment \<Rightarrow> string \<Rightarrow> unit io" where
  "fs_rm env d w =
     (if fs_fault env (Rm d) then (Throw SystemError, w)
      else (Return (), w\<lparr>files := (\<lambda>p. if lies_in d p then None else files w p),
                            dirs := {p \<in> dirs w. \<not> lies_in d p}\<rparr>))"

section \<open>The script\<close>

subsection \<open>Configuration\<close>

text \<open>
  The settings read from the process environment once \<^verbatim>\<open>loadEnv\<close> has run, and the
  directory of the module (\<^verbatim>\<open>__dirname\<close>). A required variable that is not set is
  written as the empty string: the check at the top of the module treats the two alike,
  and \<open>main\<close> is called only when the check passes. \<open>HOME_BASE_env\<close> is \<open>None\<close>
  when the variable is not set.
\<close>

record config =
  CPANEL_USER :: string
  SUBDOMAINNAME :: string
  AUTH_TOKEN :: string
  HOME_BASE_env :: "string option"
  dirname :: string

definition CPANEL_HOST :: "config \<Rightarrow> string" where
  "CPANEL_HOST cfg = ''https://'' @ SUBDOMAINNAME cfg @ ''.mybluehost.me:2083''"

text \<open>\<^verbatim>\<open>process.env.HOME_BASE || '/home2'\<close>: an empty string is falsy.\<close>

definition HOME_BASE :: "config \<Rightarrow> string" where
  "HOME_BASE cfg =
     (case HOME_BASE_env cfg of None \<Rightarrow> ''/home2'' | Some b \<Rightarrow> if b = [] then ''/home2'' else b)"

definition PUBLIC_HTML_PATH :: "config \<Rightarrow> string" where
  "PUBLIC_HTML_PATH cfg = HOME_BASE cfg @ ''/'' @ CPANEL_USER cfg @ ''/public_html''"

definition headers :: "config \<Rightarrow> (string \<times> string) list" where
  "headers cfg = [(''Authorization'', ''cpanel '' @ CPANEL_USER cfg @ '':'' @ AUTH_TOKEN cfg)]"

text \<open>The check made before anything else: the three settings are set and not empty.\<close>

definition valid_config :: "config \<Rightarrow> bool" where
  "valid_config cfg = (CPANEL_USER cfg \<noteq> [] \<and> SUBDOMAINNAME cfg \<noteq> [] \<and> AUTH_TOKEN cfg \<noteq> [])"

subsection \<open>The time stamp\<close>

text \<open>
  The local time \<^verbatim>\<open>new Date()\<close> reads, by the six getters the script calls
  (\<open>month0\<close> is \<^verbatim>\<open>getMonth()\<close>, counted from 0). The clock gives a year of
  the common era, a natural number.
\<close>

record date_time =
  year :: nat
  month0 :: nat
  day :: nat
  hours :: nat
  minutes :: nat
  seconds :: nat

definition getTimestamp :: "date_time \<Rightarrow> string" where
  "getTimestamp now =
     string_of_nat (year now) @ padStart2 (string_of_nat (month0 now + 1)) @
     padStart2 (string_of_nat (day now)) @ padStart2 (string_of_nat (hours now)) @
     padStart2 (string_of_nat (minutes now)) @ padStart2 (string_of_nat (seconds now))"

subsection \<open>Console marks\<close>

text \<open>The check mark U+2713 and the ballot cross U+2717, as their UTF-8 bytes.\<close>

definition check_mark :: string where
  "check_mark = [CHR 0xE2, CHR 0x9C, CHR 0x93]"

definition cross_mark :: string where
  "cross_mark = [CHR 0xE2, CHR 0x9C, CHR 0x97]"

subsection \<open>ensureRemoteDirectory\<close>

definition mkdir_request :: "config \<Rightarrow> string \<Rightarrow> string \<Rightarrow> request" where
  "mkdir_request cfg parentAbsolutePath dirName =
     \<lparr>http_method = ''GET'',
      url = CPANEL_HOST cfg @ ''/json-api/cpanel'',
      query =
        [(''cpanel_jsonapi_user'', CPANEL_USER cfg),
         (''cpanel_jsonapi_apiversion'', ''2''),
         (''cpanel_jsonapi_module'', ''Fileman''),
         (''cpanel_jsonapi_func'', ''mkdir''),
         (''path'', parentAbsolutePath),
         (''name'', dirName),
         (''permissions'', ''0755'')],
      request_headers = headers cfg,
      body = None\<rparr>"

text \<open>The three branches on the decoded payload, lines 94 to 104.\<close>

definition mkdir_outcome :: "string \<Rightarrow> json \<Rightarrow> bool io" where
  "mkdir_outcome dirName payload =
     bind_io (eval_io (event_result payload)) (\<lambda>r.
       if r = Some (JNum (Finite 1)) then
         bind_io (console_log (check_mark @ '' Directory created successfully: '' @ dirName))
           (\<lambda>_. return_io True)
       else
         bind_io (eval_io (reason_includes_exists payload)) (\<lambda>i.
           if truthy i then
             bind_io (console_log (check_mark @ '' Directory already exists: '' @ dirName))
               (\<lambda>_. return_io True)
           else
             bind_io (console_error (cross_mark @ '' Failed to create directory: '' @ dirName))
               (\<lambda>_. bind_io (emit (ConsoleErrorJson payload))
               (\<lambda>_. throw_io (Error ''Directory creation failed'')))))"

text \<open>What follows the call of \<^verbatim>\<open>fetch\<close>, lines 74 to 104.\<close>

definition mkdir_response :: "config \<Rightarrow> string \<Rightarrow> fetch_result \<Rightarrow> bool io" where
  "mkdir_response cfg dirName fetched =
     (case fetched of
        Rejected message \<Rightarrow>
          bind_io (block
            [console_error (cross_mark @ '' Network error during fetch:''),
             console_error (''  URL: '' @ CPANEL_HOST cfg @ ''/json-api/cpanel''),
             console_error (''  Error: '' @ message)])
            (\<lambda>_. throw_io (Error (''Fetch failed: '' @ message)))
      | Resolved response \<Rightarrow>
          if \<not> ok response then
            bind_io (console_error (cross_mark @ '' HTTP error: '' @
                       string_of_nat (status response) @ '' '' @ statusText response))
              (\<lambda>_. throw_io (Error (''HTTP '' @ string_of_nat (status response) @ '': '' @
                       statusText response)))
          else
            bind_io (response_json response) (mkdir_outcome dirName))"

definition ensureRemoteDirectory :: "environment \<Rightarrow> config \<Rightarrow> string \<Rightarrow> string \<Rightarrow> bool io" where
  "ensureRemoteDirectory env cfg parentAbsolutePath dirName =
     bind_io (console_log (''Creating directory: '' @ dirName @ '' in '' @ parentAbsolutePath))
       (\<lambda>_. bind_io (fetch env (mkdir_request cfg parentAbsolutePath dirName))
              (mkdir_response cfg dirName))"

subsection \<open>uploadFiles\<close>

text \<open>The loop over \<^verbatim>\<open>localFiles\<close>, with the form and the index it carries.\<close>

fun attach_files :: "environment \<Rightarrow> string list \<Rightarrow> form_data \<Rightarrow> nat \<Rightarrow> form_data io" where
  "attach_files env [] form index = return_io form"
| "attach_files env (filePath # rest) form index =
     bind_io (fs_readFile env filePath) (\<lambda>buffer.
       let fileName = basename filePath;
           file = File fileName ''text/plain'' buffer;
           form' = form_append form (''file-'' @ string_of_nat index) file
       in bind_io (console_log (''  - Adding file: '' @ fileName))
            (\<lambda>_. attach_files env rest form' (index + 1)))"

definition upload_request :: "config \<Rightarrow> form_data \<Rightarrow> request" where
  "upload_request cfg form =
     \<lparr>http_method = ''POST'',
      url = CPANEL_HOST cfg @ ''/execute/Fileman/upload_files'',
      query = [],
      request_headers = headers cfg,
      body = Some form\<rparr>"

text \<open>The two branches on the decoded payload, lines 146 to 153.\<close>

definition upload_outcome :: "json \<Rightarrow> bool io" where
  "upload_outcome payload =
     bind_io (eval_io (payload_status payload)) (\<lambda>s.
       if s = Some (JNum (Finite 1)) then
         bind_io (console_log (check_mark @ '' Files uploaded successfully''))
           (\<lambda>_. return_io True)
       else
         bind_io (console_error (cross_mark @ '' Upload failed''))
           (\<lambda>_. bind_io (emit (ConsoleErrorJson payload))
           (\<lambda>_. throw_io (Error ''File upload failed''))))"

text \<open>What follows the call of \<^verbatim>\<open>fetch\<close>, lines 124 to 153.\<close>

definition upload_response :: "config \<Rightarrow> fetch_result \<Rightarrow> bool io" where
  "upload_response cfg fetched =
     (case fetched of
        Rejected message \<Rightarrow>
          bind_io (block
            [console_error (cross_mark @ '' Network error during fetch:''),
             console_error (''  URL: '' @ CPANEL_HOST cfg @ ''/execute/Fileman/upload_files''),
             console_error (''  Error: '' @ message)])
            (\<lambda>_. throw_io (Error (''Fetch failed: '' @ message)))
      | Resolved response \<Rightarrow>
          if \<not> ok response then
            bind_io (block
              [console_error (cross_mark @ '' HTTP error: '' @
                 string_of_nat (status response) @ '' '' @ statusText response),
               console_error (''  Response: '' @ response_text_or response)])
              (\<lambda>_. throw_io (Error (''HTTP '' @ string_of_nat (status response) @ '': '' @
                       statusText response)))
          else
            bind_io (response_json response) upload_outcome)"

definition uploadFiles :: "environment \<Rightarrow> config \<Rightarrow> string \<Rightarrow> string list \<Rightarrow> bool io" where
  "uploadFiles env cfg remoteDir localFiles =
     bind_io (console_log (''Uploading '' @ string_of_nat (length localFiles) @
                '' file(s) to '' @ remoteDir))
       (\<lambda>_. bind_io (attach_files env localFiles (form_set [] ''dir'' (Field remoteDir)) 1)
       (\<lambda>form. bind_io (fetch env (upload_request cfg form)) (upload_response cfg)))"

subsection \<open>main\<close>

text \<open>An awaited call whose value is not used.\<close>

definition await :: "'a io \<Rightarrow> unit io" where
  "await m = bind_io m (\<lambda>_. return_io ())"

definition rule60 :: string where
  "rule60 = replicate 60 CHR ''=''"

definition main :: "environment \<Rightarrow> config \<Rightarrow> date_time \<Rightarrow> unit io" where
  "main env cfg now =
     (let timestamp = getTimestamp now;
          tempDir = path_join (dirname cfg) ''temp_upload'';
          file1Name = timestamp @ ''.txt'';
          file1Path = path_join tempDir file1Name;
          dirName = timestamp @ ''_test_dir'';
          file2Name = timestamp @ ''_file2.txt'';
          file2Path = path_join tempDir file2Name
      in block
        [console_log rule60,
         console_log ''BlueHost cPanel File Upload Script'',
         console_log rule60,
         console_log (''Target host: '' @ CPANEL_HOST cfg),
         console_log (''User: '' @ CPANEL_USER cfg),
         console_log [],
         console_log (''Timestamp: '' @ timestamp),
         console_log [],
         fs_mkdir env tempDir,
         try_catch_finally
           (block
             [fs_writeFile env file1Path ''hello world'',
              console_log (''[1/4] Created local file: '' @ file1Name),
              await (uploadFiles env cfg ''public_html'' [file1Path]),
              console_log (''[2/4] Uploaded '' @ file1Name @ '' to public_html''),
              console_log [],
              await (ensureRemoteDirectory env cfg (PUBLIC_HTML_PATH cfg) dirName),
              console_log (''[3/4] Created directory: '' @ dirName),
              console_log [],
              fs_writeFile env file2Path ''hello world'',
              console_log (''Created local file: '' @ file2Name),
              await (uploadFiles env cfg (''public_html/'' @ dirName) [file2Path]),
              console_log (''[4/4] Uploaded '' @ file2Name @ '' to '' @ dirName),
              console_log [],
              console_log rule60,
              console_log (check_mark @ '' All operations completed successfully!''),
              console_log rule60,
              console_log [],
              console_log ''Files created:'',
              console_log (''  - public_html/'' @ file1Name),
              console_log (''  - public_html/'' @ dirName @ ''/''),
              console_log (''  - public_html/'' @ dirName @ ''/'' @ file2Name),
              console_log []])
           (\<lambda>error. block
             [console_error rule60,
              console_error (cross_mark @ '' Error during upload process:''),
              emit (ConsoleErrorMessage error),
              console_error rule60,
              process_exit 1])
           (try_catch
             (block
               [fs_rm env tempDir,
                console_log ''Cleaned up temporary files''])
             (\<lambda>cleanupError. console_warn ''Warning: Could not clean up temporary files''))])"

text \<open>
  The module: the settings are checked, then \<^verbatim>\<open>main()\<close> is called. The exit code of
  the process is 0 when \<open>main\<close> returns, 1 when its promise is rejected with nothing to
  handle it, and the argument of \<^verbatim>\<open>process.exit\<close> otherwise.
\<close>

definition script :: "environment \<Rightarrow> config \<Rightarrow> date_time \<Rightarrow> unit io" where
  "script env cfg now =
     (if \<not> valid_config cfg then
        block
          [console_error ''ERROR: Missing required environment variables'',
           console_error ''Please set USERNAME, SUBDOMAINNAME, and BLUEHOSTAPI'',
           process_exit 1]
      else main env cfg now)"

fun exit_code :: "unit completion \<Rightarrow> nat" where
  "exit_code (Return _) = 0"
| "exit_code (Throw e) = 1"
| "exit_code (Exit c) = c"

section \<open>Providers, runs and observations used by the properties\<close>

text \<open>
  A provider that answers every request with status 200 and the JSON body
  \<^verbatim>\<open>null\<close>; no file system call is rejected.
\<close>

definition null_body_env :: environment where
  "null_body_env =
     \<lparr>net = (\<lambda>history. Resolved \<lparr>status = 200, statusText = ''OK'', body_json = Decoded JNull,
                                     body_text = Some ''null''\<rparr>),
      fs_fault = (\<lambda>op. False)\<rparr>"

text \<open>
  A mkdir payload without the success indicator whose \<^verbatim>\<open>reason\<close> is the value \<open>r\<close>:
  \<^verbatim>\<open>{"cpanelresult": {"event": {"result": 0}, "data": [{"result": 0, "reason": r}]}}\<close>
\<close>

definition failure_payload :: "json \<Rightarrow> json" where
  "failure_payload r =
     JObj [(''cpanelresult'',
            JObj [(''event'', JObj [(''result'', JNum (Finite 0))]),
                  (''data'', JArr [JObj [(''result'', JNum (Finite 0)), (''reason'', r)]])])]"

text \<open>
  The three kinds of failure of an operation, the kind of a fetch result, and the kinds a
  reason string belongs to: by its prefix for the first two, and as one of the two fixed
  messages of the script for the third.
\<close>

datatype failure_kind = Transport | HttpStatus | Application

fun fetch_kind :: "fetch_result \<Rightarrow> failure_kind" where
  "fetch_kind (Rejected message) = Transport"
| "fetch_kind (Resolved response) = (if ok response then Application else HttpStatus)"

definition reason_kinds :: "string \<Rightarrow> failure_kind set" where
  "reason_kinds reason =
     (if prefix ''Fetch failed:'' reason then {Transport} else {}) \<union>
     (if prefix ''HTTP'' reason then {HttpStatus} else {}) \<union>
     (if reason = ''Directory creation failed'' \<or> reason = ''File upload failed''
      then {Application} else {})"

text \<open>A configuration and a world with nothing in it, for concrete runs.\<close>

definition demo_config :: config where
  "demo_config =
     \<lparr>CPANEL_USER = ''bob'', SUBDOMAINNAME = ''sub'', AUTH_TOKEN = ''T'', HOME_BASE_env = None,
      dirname = ''/app''\<rparr>"

definition fresh_world :: world where
  "fresh_world = \<lparr>files = Map.empty, dirs = {}, events = []\<rparr>"

text \<open>
  The provider that the idempotence property supposes (the provider is outside the
  repository). It answers a mkdir request with the success indicator, unless the same
  request was already made in the run: then it answers with a failure whose reason text
  is \<open>reason\<close>.
\<close>

definition created_payload :: json where
  "created_payload =
     JObj [(''cpanelresult'',
            JObj [(''event'', JObj [(''result'', JNum (Finite 1))]),
                  (''data'', JArr [JObj [(''result'', JNum (Finite 1))]])])]"

definition mkdir_provider :: "string \<Rightarrow> request list \<Rightarrow> fetch_result" where
  "mkdir_provider reason history =
     Resolved \<lparr>status = 200, statusText = ''OK'',
       body_json = Decoded (if history \<noteq> [] \<and> last history \<in> set (butlast history)
                         then failure_payload (JStr reason) else created_payload),
       body_text = None\<rparr>"

text \<open>
  The three requests of a run as the end-to-end scenario words them, from the
  configuration and the time stamp alone.
\<close>

definition first_upload :: "config \<Rightarrow> string \<Rightarrow> request" where
  "first_upload cfg timestamp =
     upload_request cfg
       [(''dir'', Field ''public_html''),
        (''file-1'', File (timestamp @ ''.txt'') ''text/plain'' ''hello world'')]"

definition directory_creation :: "config \<Rightarrow> string \<Rightarrow> request" where
  "directory_creation cfg timestamp =
     mkdir_request cfg (HOME_BASE cfg @ ''/'' @ CPANEL_USER cfg @ ''/public_html'')
       (timestamp @ ''_test_dir'')"

definition second_upload :: "config \<Rightarrow> string \<Rightarrow> request" where
  "second_upload cfg timestamp =
     upload_request cfg
       [(''dir'', Field (''public_html/'' @ timestamp @ ''_test_dir'')),
        (''file-1'', File (timestamp @ ''_file2.txt'') ''text/plain'' ''hello world'')]"

text \<open>
  The operation that sent a request: \<open>ensureRemoteDirectory\<close> alone sends a
  \<^verbatim>\<open>GET\<close>, \<open>uploadFiles\<close> alone a \<^verbatim>\<open>POST\<close>.
\<close>

datatype operation = CreateDirectory | UploadFiles

definition operation_of :: "request \<Rightarrow> operation" where
  "operation_of r = (if http_method r = ''GET'' then CreateDirectory else UploadFiles)"

text \<open>
  Providers for concrete runs: one that accepts every request, one that refuses to create
  a directory, one that cannot be reached; and an instant.
\<close>

definition ok_response :: "json \<Rightarrow> fetch_result" where
  "ok_response payload =
     Resolved \<lparr>status = 200, statusText = ''OK'', body_json = Decoded payload, body_text = None\<rparr>"

definition accepting_env :: environment where
  "accepting_env =
     \<lparr>net = (\<lambda>history. if body (last history) = None then ok_response created_payload
                        else ok_response (JObj [(''status'', JNum (Finite 1))])),
      fs_fault = (\<lambda>op. False)\<rparr>"

definition refusing_env :: environment where
  "refusing_env =
     \<lparr>net = (\<lambda>history. if body (last history) = None
                        then ok_response (failure_payload (JStr ''Permission denied''))
                        else ok_response (JObj [(''status'', JNum (Finite 1))])),
      fs_fault = (\<lambda>op. False)\<rparr>"

definition offline_env :: environment where
  "offline_env = \<lparr>net = (\<lambda>history. Rejected ''fetch failed''), fs_fault = (\<lambda>op. False)\<rparr>"

definition demo_now :: date_time where
  "demo_now = \<lparr>year = 2024, month0 = 0, day = 5, hours = 13, minutes = 7, seconds = 9\<rparr>"

section \<open>Properties\<close>

subsection \<open>Running statements\<close>

lemmas io_defs = bind_io_def return_io_def throw_io_def process_exit_def emit_def
  console_log_def console_error_def console_warn_def eval_io_def await_def fetch_def
  response_json_def

lemmas probe_defs = event_result_def reason_includes_exists_def payload_status_def
  read_member_def opt_member_def opt_index0_def own_member_def

subsection \<open>Classifying a decoded payload\<close>

text \<open>
  On every payload the probing of which does not raise, \<open>mkdir_outcome\<close> returns
  \<open>True\<close> when the result field is the number 1 or the call of \<^verbatim>\<open>includes\<close> gives
  \<^verbatim>\<open>true\<close>, and otherwise writes the payload to the error console and throws the
  fixed message.
\<close>

lemma mkdir_outcome_created:
  "event_result payload = Inr (Some (JNum (Finite 1))) \<Longrightarrow>
   mkdir_outcome dirName payload w =
     (Return True,
      w\<lparr>events := events w @ [ConsoleLog (check_mark @ '' Directory created successfully: '' @ dirName)]\<rparr>)"
  by (simp add: mkdir_outcome_def io_defs)

lemma mkdir_outcome_exists:
  "event_result payload = Inr r \<Longrightarrow> r \<noteq> Some (JNum (Finite 1)) \<Longrightarrow>
   reason_includes_exists payload = Inr i \<Longrightarrow> truthy i \<Longrightarrow>
   mkdir_outcome dirName payload w =
     (Return True,
      w\<lparr>events := events w @ [ConsoleLog (check_mark @ '' Directory already exists: '' @ dirName)]\<rparr>)"
  by (simp add: mkdir_outcome_def io_defs)

lemma mkdir_outcome_failed:
  "event_result payload = Inr r \<Longrightarrow> r \<noteq> Some (JNum (Finite 1)) \<Longrightarrow>
   reason_includes_exists payload = Inr i \<Longrightarrow> \<not> truthy i \<Longrightarrow>
   mkdir_outcome dirName payload w =
     (Throw (Error ''Directory creation failed''),
      w\<lparr>events := events w @
         [ConsoleError (cross_mark @ '' Failed to create directory: '' @ dirName),
          ConsoleErrorJson payload]\<rparr>)"
  by (simp add: mkdir_outcome_def io_defs)

lemma mkdir_outcome_raises:
  "event_result payload = Inl e \<or>
   (event_result payload = Inr r \<and> r \<noteq> Some (JNum (Finite 1)) \<and>
    reason_includes_exists payload = Inl e) \<Longrightarrow>
   mkdir_outcome dirName payload w = (Throw e, w)"
  by (auto simp add: mkdir_outcome_def io_defs)

lemma upload_outcome_success:
  "payload_status payload = Inr (Some (JNum (Finite 1))) \<Longrightarrow>
   upload_outcome payload w =
     (Return True, w\<lparr>events := events w @ [ConsoleLog (check_mark @ '' Files uploaded successfully'')]\<rparr>)"
  by (simp add: upload_outcome_def io_defs)

lemma upload_outcome_failed:
  "payload_status payload = Inr s \<Longrightarrow> s \<noteq> Some (JNum (Finite 1)) \<Longrightarrow>
   upload_outcome payload w =
     (Throw (Error ''File upload failed''),
      w\<lparr>events := events w @
         [ConsoleError (cross_mark @ '' Upload failed''), ConsoleErrorJson payload]\<rparr>)"
  by (simp add: upload_outcome_def io_defs)

text \<open>Probing raises on no payload but \<^verbatim>\<open>null\<close> in \<open>uploadFiles\<close>.\<close>

lemma payload_status_total:
  "payload \<noteq> JNull \<Longrightarrow> payload_status payload = Inr (get_member payload ''status'')"
  by (simp add: probe_defs)

lemma upload_outcome_success_iff:
  "fst (upload_outcome payload w) = Return True \<longleftrightarrow>
   payload \<noteq> JNull \<and> get_member payload ''status'' = Some (JNum (Finite 1))"
  by (simp add: upload_outcome_def io_defs probe_defs)

lemma mkdir_outcome_success_iff:
  "fst (mkdir_outcome dirName payload w) = Return True \<longleftrightarrow>
   event_result payload = Inr (Some (JNum (Finite 1))) \<or>
   (\<exists>r i. event_result payload = Inr r \<and> reason_includes_exists payload = Inr i \<and> truthy i)"
  by (cases "event_result payload"; cases "reason_includes_exists payload")
     (auto simp add: mkdir_outcome_def io_defs)

lemma reason_text_includes:
  assumes "payload \<noteq> JNull"
    and "opt_member (opt_index0 (opt_member (get_member payload ''cpanelresult'') ''data''))
           ''reason'' = Some (JStr reason)"
  shows "reason_includes_exists payload = Inr (Some (JBool (sublist ''exists'' reason)))"
  using assms by (simp add: reason_includes_exists_def read_member_def)

text \<open>
  \<^bold>\<open>C1\<close>. The claim: for every decoded payload, createDirectory returns Success exactly
  when the result field is 1 or else the reason text contains \<^verbatim>\<open>exists\<close>, and any other
  payload yields the Failure that carries the payload. The script does not do this on
  every payload. On the body \<^verbatim>\<open>null\<close>, which has neither indicator, reading
  \<^verbatim>\<open>payload.cpanelresult\<close> raises a \<open>TypeError\<close>: the failure branch is not reached
  and the payload is not written. On a payload whose \<^verbatim>\<open>reason\<close> is the array
  \<^verbatim>\<open>["exists"]\<close>, no text at all, the call of \<^verbatim>\<open>includes\<close> finds the element and
  the script returns Success.
\<close>

theorem ensureRemoteDirectory_null_payload:
  "ensureRemoteDirectory null_body_env cfg parent dirName w =
     (Throw TypeError,
      w\<lparr>events := events w @
         [ConsoleLog (''Creating directory: '' @ dirName @ '' in '' @ parent),
          Fetch (mkdir_request cfg parent dirName)]\<rparr>) \<and>
   mkdir_outcome dirName (failure_payload (JArr [JStr ''exists''])) w =
     (Return True,
      w\<lparr>events := events w @ [ConsoleLog (check_mark @ '' Directory already exists: '' @ dirName)]\<rparr>)"
  by (simp add: ensureRemoteDirectory_def mkdir_response_def mkdir_outcome_def io_defs
      null_body_env_def ok_def probe_defs failure_payload_def)

text \<open>
  \<^bold>\<open>C7\<close>. The claim: for every decoded payload of a 2xx response, uploadFiles returns
  Success exactly when the top-level status is 1, and any other payload yields the Failure
  that carries the payload. Success is returned exactly then (\<open>upload_outcome_success_iff\<close>),
  and every other payload but one takes the failure branch (\<open>upload_outcome_failed\<close>); on
  the body \<^verbatim>\<open>null\<close> reading \<^verbatim>\<open>payload.status\<close> raises a \<open>TypeError\<close> instead, and
  neither the payload nor the line \<^verbatim>\<open>Upload failed\<close> is written.
\<close>

theorem uploadFiles_null_payload:
  "uploadFiles null_body_env cfg remoteDir [] w =
     (Throw TypeError,
      w\<lparr>events := events w @
         [ConsoleLog (''Uploading 0 file(s) to '' @ remoteDir),
          Fetch (upload_request cfg [(''dir'', Field remoteDir)])]\<rparr>)"
  by (simp add: uploadFiles_def upload_response_def upload_outcome_def io_defs
      null_body_env_def ok_def probe_defs form_set_def string_of_nat.simps digit_char_def)

text \<open>
  \<^bold>\<open>C10\<close>. The claim: on every JSON value decoded from a 2xx response the
  classification of both operations is total, the probing never raises, and a payload of
  no recognised shape falls through to the failure branch. The probing of the script
  raises on the value \<^verbatim>\<open>null\<close>, in both operations, and in createDirectory on a
  \<^verbatim>\<open>reason\<close> that is a number, a boolean or an object: the outcome is a thrown
  \<open>TypeError\<close> and nothing is written to the console.
\<close>

theorem classification_raises:
  "mkdir_outcome dirName JNull w = (Throw TypeError, w) \<and>
   upload_outcome JNull w = (Throw TypeError, w) \<and>
   mkdir_outcome dirName (failure_payload (JNum (Finite 0))) w = (Throw TypeError, w) \<and>
   mkdir_outcome dirName (failure_payload (JBool True)) w = (Throw TypeError, w) \<and>
   mkdir_outcome dirName (failure_payload (JObj [])) w = (Throw TypeError, w)"
  by (simp add: mkdir_outcome_def upload_outcome_def io_defs probe_defs failure_payload_def)

subsection \<open>Requests and responses of the two operations\<close>

lemma sent_requests_append [simp]:
  "sent_requests (xs @ ys) = sent_requests xs @ sent_requests ys"
  by (induction xs rule: sent_requests.induct) simp_all

lemma ensureRemoteDirectory_fetch:
  "ensureRemoteDirectory env cfg parent dirName w =
     mkdir_response cfg dirName
       (net env (sent_requests (events w) @ [mkdir_request cfg parent dirName]))
       (w\<lparr>events := events w @
          [ConsoleLog (''Creating directory: '' @ dirName @ '' in '' @ parent),
           Fetch (mkdir_request cfg parent dirName)]\<rparr>)"
  by (simp add: ensureRemoteDirectory_def io_defs Let_def)

text \<open>
  \<^bold>\<open>C3\<close>. For a directory that no earlier request of the run has created, against a
  provider that answers the first mkdir request with the success indicator and the
  identical second one with a failure whose reason text contains \<^verbatim>\<open>exists\<close>,
  createDirectory called twice in a row returns Success both times: the first call
  reports the directory as created, the second as already existing.
\<close>

theorem createDirectory_twice:
  assumes "sublist ''exists'' reason"
    and "mkdir_request cfg parent dirName \<notin> set (sent_requests (events w))"
  shows "ensureRemoteDirectory \<lparr>net = mkdir_provider reason, fs_fault = faults\<rparr> cfg parent dirName w =
           (Return True, w\<lparr>events := events w @
              [ConsoleLog (''Creating directory: '' @ dirName @ '' in '' @ parent),
               Fetch (mkdir_request cfg parent dirName),
               ConsoleLog (check_mark @ '' Directory created successfully: '' @ dirName)]\<rparr>) \<and>
         ensureRemoteDirectory \<lparr>net = mkdir_provider reason, fs_fault = faults\<rparr> cfg parent dirName
           (snd (ensureRemoteDirectory \<lparr>net = mkdir_provider reason, fs_fault = faults\<rparr> cfg parent dirName w)) =
           (Return True, w\<lparr>events := events w @
              [ConsoleLog (''Creating directory: '' @ dirName @ '' in '' @ parent),
               Fetch (mkdir_request cfg parent dirName),
               ConsoleLog (check_mark @ '' Directory created successfully: '' @ dirName),
               ConsoleLog (''Creating directory: '' @ dirName @ '' in '' @ parent),
               Fetch (mkdir_request cfg parent dirName),
               ConsoleLog (check_mark @ '' Directory already exists: '' @ dirName)]\<rparr>)"
proof -
  let ?env = "\<lparr>net = mkdir_provider reason, fs_fault = faults\<rparr>"
  have created: "event_result created_payload = Inr (Some (JNum (Finite 1)))"
    by (simp add: created_payload_def probe_defs)
  have refused: "event_result (failure_payload (JStr reason)) = Inr (Some (JNum (Finite 0)))"
    "reason_includes_exists (failure_payload (JStr reason)) = Inr (Some (JBool True))"
    using assms(1) by (simp_all add: failure_payload_def probe_defs)
  have first: "ensureRemoteDirectory ?env cfg parent dirName w =
           (Return True, w\<lparr>events := events w @
              [ConsoleLog (''Creating directory: '' @ dirName @ '' in '' @ parent),
               Fetch (mkdir_request cfg parent dirName),
               ConsoleLog (check_mark @ '' Directory created successfully: '' @ dirName)]\<rparr>)"
    using assms(2)
    by (simp add: ensureRemoteDirectory_fetch mkdir_provider_def mkdir_response_def ok_def
        response_json_def return_io_def bind_io_def mkdir_outcome_created [OF created])
  have second: "ensureRemoteDirectory ?env cfg parent dirName
           (w\<lparr>events := events w @
              [ConsoleLog (''Creating directory: '' @ dirName @ '' in '' @ parent),
               Fetch (mkdir_request cfg parent dirName),
               ConsoleLog (check_mark @ '' Directory created successfully: '' @ dirName)]\<rparr>) =
           (Return True, w\<lparr>events := events w @
              [ConsoleLog (''Creating directory: '' @ dirName @ '' in '' @ parent),
               Fetch (mkdir_request cfg parent dirName),
               ConsoleLog (check_mark @ '' Directory created successfully: '' @ dirName),
               ConsoleLog (''Creating directory: '' @ dirName @ '' in '' @ parent),
               Fetch (mkdir_request cfg parent dirName),
               ConsoleLog (check_mark @ '' Directory already exists: '' @ dirName)]\<rparr>)"
    by (simp add: ensureRemoteDirectory_fetch mkdir_provider_def mkdir_response_def ok_def
        response_json_def return_io_def bind_io_def butlast_append
        mkdir_outcome_exists [OF refused(1) _ refused(2)])
  show ?thesis
    by (simp only: first second snd_conv simp_thms)
qed



theorem createDirectory_twice_witness:
  "ensureRemoteDirectory \<lparr>net = mkdir_provider ''File exists'', fs_fault = (\<lambda>op. False)\<rparr>
     demo_config
     ''/home2/bob/public_html'' ''site''
     (snd (ensureRemoteDirectory \<lparr>net = mkdir_provider ''File exists'', fs_fault = (\<lambda>op. False)\<rparr>
     demo_config
     ''/home2/bob/public_html'' ''site'' fresh_world)) =
   (Return True, fresh_world\<lparr>events :=
              [ConsoleLog ''Creating directory: site in /home2/bob/public_html'',
               Fetch (mkdir_request demo_config ''/home2/bob/public_html'' ''site''),
               ConsoleLog (check_mark @ '' Directory created successfully: site''),
               ConsoleLog ''Creating directory: site in /home2/bob/public_html'',
               Fetch (mkdir_request demo_config ''/home2/bob/public_html'' ''site''),
               ConsoleLog (check_mark @ '' Directory already exists: site'')]\<rparr>)"
proof -
  have s: "sublist ''exists'' ''File exists''"
    by (simp add: sublist_Cons_right)
  have n: "mkdir_request demo_config ''/home2/bob/public_html'' ''site''
      \<notin> set (sent_requests (events fresh_world))"
    by (simp add: fresh_world_def)
  from createDirectory_twice [OF s n, of "\<lambda>op. False", THEN conjunct2]
  show ?thesis
    by (simp add: fresh_world_def)
qed


lemma reason_kinds_transport: "reason_kinds (''Fetch failed: '' @ message) = {Transport}"
  by (simp add: reason_kinds_def)

lemma reason_kinds_http: "reason_kinds (''HTTP '' @ rest) = {HttpStatus}"
  by (simp add: reason_kinds_def)

lemma reason_kinds_application:
  "reason_kinds ''Directory creation failed'' = {Application}"
  "reason_kinds ''File upload failed'' = {Application}"
  by (simp_all add: reason_kinds_def)

lemma mkdir_response_Rejected:
  "mkdir_response cfg dirName (Rejected message) w =
     (Throw (Error (''Fetch failed: '' @ message)),
      w\<lparr>events := events w @
         [ConsoleError (cross_mark @ '' Network error during fetch:''),
          ConsoleError (''  URL: '' @ CPANEL_HOST cfg @ ''/json-api/cpanel''),
          ConsoleError (''  Error: '' @ message)]\<rparr>)"
  by (simp add: mkdir_response_def io_defs)

lemma mkdir_response_not_ok:
  "\<not> ok response \<Longrightarrow>
   mkdir_response cfg dirName (Resolved response) w =
     (Throw (Error (''HTTP '' @ string_of_nat (status response) @ '': '' @ statusText response)),
      w\<lparr>events := events w @
         [ConsoleError (cross_mark @ '' HTTP error: '' @ string_of_nat (status response) @
            '' '' @ statusText response)]\<rparr>)"
  by (simp add: mkdir_response_def io_defs)

lemma mkdir_response_ok:
  "ok response \<Longrightarrow> body_json response = Decoded payload \<Longrightarrow>
   mkdir_response cfg dirName (Resolved response) w = mkdir_outcome dirName payload w"
  by (simp add: mkdir_response_def io_defs)

lemma mkdir_response_not_json:
  "ok response \<Longrightarrow> body_json response = NotJson \<Longrightarrow>
   mkdir_response cfg dirName (Resolved response) w = (Throw SyntaxError, w)"
  by (simp add: mkdir_response_def io_defs)

lemma mkdir_response_unreadable:
  "ok response \<Longrightarrow> body_json response = Unreadable \<Longrightarrow>
   mkdir_response cfg dirName (Resolved response) w = (Throw TypeError, w)"
  by (simp add: mkdir_response_def io_defs)

lemma upload_response_Rejected:
  "upload_response cfg (Rejected message) w =
     (Throw (Error (''Fetch failed: '' @ message)),
      w\<lparr>events := events w @
         [ConsoleError (cross_mark @ '' Network error during fetch:''),
          ConsoleError (''  URL: '' @ CPANEL_HOST cfg @ ''/execute/Fileman/upload_files''),
          ConsoleError (''  Error: '' @ message)]\<rparr>)"
  by (simp add: upload_response_def io_defs)

lemma upload_response_not_ok:
  "\<not> ok response \<Longrightarrow>
   upload_response cfg (Resolved response) w =
     (Throw (Error (''HTTP '' @ string_of_nat (status response) @ '': '' @ statusText response)),
      w\<lparr>events := events w @
         [ConsoleError (cross_mark @ '' HTTP error: '' @ string_of_nat (status response) @
            '' '' @ statusText response),
          ConsoleError (''  Response: '' @ response_text_or response)]\<rparr>)"
  by (simp add: upload_response_def io_defs)

lemma upload_response_ok:
  "ok response \<Longrightarrow> body_json response = Decoded payload \<Longrightarrow>
   upload_response cfg (Resolved response) w = upload_outcome payload w"
  by (simp add: upload_response_def io_defs)

lemma upload_response_not_json:
  "ok response \<Longrightarrow> body_json response = NotJson \<Longrightarrow>
   upload_response cfg (Resolved response) w = (Throw SyntaxError, w)"
  by (simp add: upload_response_def io_defs)

lemma upload_response_unreadable:
  "ok response \<Longrightarrow> body_json response = Unreadable \<Longrightarrow>
   upload_response cfg (Resolved response) w = (Throw TypeError, w)"
  by (simp add: upload_response_def io_defs)

lemma opt_includes_raises: "opt_includes v x = Inl e \<Longrightarrow> e = TypeError"
  by (induction v x rule: opt_includes.induct) simp_all

lemma event_result_raises: "event_result payload = Inl e \<Longrightarrow> e = TypeError"
  by (simp add: event_result_def read_member_def split: if_splits)

lemma reason_includes_exists_raises:
  "reason_includes_exists payload = Inl e \<Longrightarrow> e = TypeError"
  by (auto simp add: reason_includes_exists_def read_member_def
      split: if_splits dest: opt_includes_raises)

lemma payload_status_raises: "payload_status payload = Inl e \<Longrightarrow> e = TypeError"
  by (simp add: payload_status_def read_member_def split: if_splits)

lemma mkdir_outcome_Error:
  "fst (mkdir_outcome dirName payload w) = Throw (Error reason) \<Longrightarrow>
   reason = ''Directory creation failed''"
  by (cases "event_result payload"; cases "reason_includes_exists payload")
     (auto simp add: mkdir_outcome_def io_defs split: if_splits
       dest: event_result_raises reason_includes_exists_raises)

lemma upload_outcome_Error:
  "fst (upload_outcome payload w) = Throw (Error reason) \<Longrightarrow> reason = ''File upload failed''"
  by (cases "payload_status payload")
     (auto simp add: upload_outcome_def io_defs split: if_splits dest: payload_status_raises)

lemma mkdir_reason_kind:
  assumes "fst (mkdir_response cfg dirName fetched w) = Throw (Error reason)"
  shows "reason_kinds reason = {fetch_kind fetched}"
proof (cases fetched)
  case (Rejected message)
  with assms have "reason = ''Fetch failed: '' @ message"
    by (auto simp add: mkdir_response_Rejected)
  with Rejected show ?thesis
    by (simp only: reason_kinds_transport fetch_kind.simps)
next
  case (Resolved response)
  show ?thesis
  proof (cases "ok response")
    case False
    with assms Resolved
    have "reason = ''HTTP '' @ string_of_nat (status response) @ '': '' @ statusText response"
      by (auto simp add: mkdir_response_not_ok)
    with Resolved False show ?thesis
      by (simp only: reason_kinds_http fetch_kind.simps if_False)
  next
    case True
    show ?thesis
    proof (cases "body_json response")
      case NotJson
      with assms Resolved True show ?thesis
        by (simp add: mkdir_response_not_json)
    next
      case Unreadable
      with assms Resolved True show ?thesis
        by (simp add: mkdir_response_unreadable)
    next
      case (Decoded payload)
      with assms Resolved True
      have "fst (mkdir_outcome dirName payload w) = Throw (Error reason)"
        by (simp add: mkdir_response_ok)
      then have "reason = ''Directory creation failed''"
        by (rule mkdir_outcome_Error)
      with Resolved True show ?thesis
        by (simp add: reason_kinds_application)
    qed
  qed
qed

lemma upload_reason_kind:
  assumes "fst (upload_response cfg fetched w) = Throw (Error reason)"
  shows "reason_kinds reason = {fetch_kind fetched}"
proof (cases fetched)
  case (Rejected message)
  with assms have "reason = ''Fetch failed: '' @ message"
    by (auto simp add: upload_response_Rejected)
  with Rejected show ?thesis
    by (simp only: reason_kinds_transport fetch_kind.simps)
next
  case (Resolved response)
  show ?thesis
  proof (cases "ok response")
    case False
    with assms Resolved
    have "reason = ''HTTP '' @ string_of_nat (status response) @ '': '' @ statusText response"
      by (auto simp add: upload_response_not_ok)
    with Resolved False show ?thesis
      by (simp only: reason_kinds_http fetch_kind.simps if_False)
  next
    case True
    show ?thesis
    proof (cases "body_json response")
      case NotJson
      with assms Resolved True show ?thesis
        by (simp add: upload_response_not_json)
    next
      case Unreadable
      with assms Resolved True show ?thesis
        by (simp add: upload_response_unreadable)
    next
      case (Decoded payload)
      with assms Resolved True
      have "fst (upload_outcome payload w) = Throw (Error reason)"
        by (simp add: upload_response_ok)
      then have "reason = ''File upload failed''"
        by (rule upload_outcome_Error)
      with Resolved True show ?thesis
        by (simp add: reason_kinds_application)
    qed
  qed
qed

text \<open>
  The reasons the two operations make. A rejected \<^verbatim>\<open>fetch\<close> gives
  \<^verbatim>\<open>Fetch failed:\<close> followed by the transport message, a response outside 2xx gives
  \<^verbatim>\<open>HTTP\<close> followed by the status code and the status text, and whenever an
  operation fails with a reason string of its own, that string belongs to exactly one of
  the three kinds, the kind of what \<^verbatim>\<open>fetch\<close> gave.
\<close>

lemma failure_reason_kinds:
  "fst (mkdir_response cfg dirName (Rejected message) w) = Throw (Error (''Fetch failed: '' @ message)) \<and>
   fst (upload_response cfg (Rejected message) w) = Throw (Error (''Fetch failed: '' @ message)) \<and>
   (\<not> ok response \<longrightarrow>
      fst (mkdir_response cfg dirName (Resolved response) w) =
        Throw (Error (''HTTP '' @ string_of_nat (status response) @ '': '' @ statusText response)) \<and>
      fst (upload_response cfg (Resolved response) w) =
        Throw (Error (''HTTP '' @ string_of_nat (status response) @ '': '' @ statusText response))) \<and>
   (fst (mkdir_response cfg dirName fetched w) = Throw (Error reason) \<longrightarrow>
      reason_kinds reason = {fetch_kind fetched}) \<and>
   (fst (upload_response cfg fetched w) = Throw (Error reason) \<longrightarrow>
      reason_kinds reason = {fetch_kind fetched})"
  by (simp add: mkdir_response_Rejected upload_response_Rejected mkdir_response_not_ok
      upload_response_not_ok mkdir_reason_kind upload_reason_kind)

text \<open>
  A 2xx response whose decoded payload lacks the success indicator, and the probing of
  which does not raise, makes the operation fail with its fixed message, a reason of the
  third kind and of no other.
\<close>

lemma mkdir_application_failure:
  assumes "ok response" and "body_json response = Decoded payload"
    and "event_result payload = Inr r" and "r \<noteq> Some (JNum (Finite 1))"
    and "reason_includes_exists payload = Inr i" and "\<not> truthy i"
  shows "fst (mkdir_response cfg dirName (Resolved response) w) =
           Throw (Error ''Directory creation failed'') \<and>
         reason_kinds ''Directory creation failed'' = {Application} \<and>
         fetch_kind (Resolved response) = Application"
  using assms
  by (simp add: mkdir_response_ok mkdir_outcome_failed reason_kinds_application)

lemma upload_application_failure:
  assumes "ok response" and "body_json response = Decoded payload"
    and "payload_status payload = Inr s" and "s \<noteq> Some (JNum (Finite 1))"
  shows "fst (upload_response cfg (Resolved response) w) = Throw (Error ''File upload failed'') \<and>
         reason_kinds ''File upload failed'' = {Application} \<and>
         fetch_kind (Resolved response) = Application"
  using assms
  by (simp add: upload_response_ok upload_outcome_failed reason_kinds_application)


lemma attach_files_readable:
  "\<forall>p \<in> set localFiles. \<not> fs_fault env (ReadFile p) \<and> files w p \<noteq> None \<Longrightarrow>
   attach_files env localFiles form index w =
     (Return (form @ map2 (\<lambda>i p. (''file-'' @ string_of_nat i,
                                   File (basename p) ''text/plain'' (the (files w p))))
                      [index..<index + length localFiles] localFiles),
      w\<lparr>events := events w @
         map (\<lambda>p. ConsoleLog (''  - Adding file: '' @ basename p)) localFiles\<rparr>)"
proof (induction localFiles arbitrary: form index w)
  case Nil
  then show ?case by (simp add: return_io_def)
next
  case (Cons p ps)
  from Cons.prems obtain content where c: "files w p = Some content" "\<not> fs_fault env (ReadFile p)"
    by auto
  let ?w = "w\<lparr>events := events w @ [ConsoleLog (''  - Adding file: '' @ basename p)]\<rparr>"
  have "\<forall>q \<in> set ps. \<not> fs_fault env (ReadFile q) \<and> files ?w q \<noteq> None"
    using Cons.prems by simp
  note ih = Cons.IH [OF this]
  have upt: "[index..<Suc (index + length ps)] = index # [Suc index..<Suc index + length ps]"
    by (simp add: upt_rec)
  have step: "attach_files env (p # ps) form index w =
      attach_files env ps
        (form @ [(''file-'' @ string_of_nat index, File (basename p) ''text/plain'' content)])
        (Suc index) ?w"
    using c by (simp add: fs_readFile_def bind_io_def console_log_def emit_def form_append_def
        Let_def)
  show ?case
    unfolding step ih using c by (simp add: upt del: upt_Suc)
qed

lemma sent_requests_console_log [simp]:
  "sent_requests (map (\<lambda>p. ConsoleLog (line p)) ps) = []"
  by (induction ps) simp_all

lemma upload_response_requests:
  "sent_requests (events (snd (upload_response cfg fetched w))) = sent_requests (events w)"
proof (cases fetched)
  case (Rejected message)
  then show ?thesis by (simp add: upload_response_Rejected)
next
  case (Resolved response)
  show ?thesis
  proof (cases "ok response")
    case False
    with Resolved show ?thesis by (simp add: upload_response_not_ok)
  next
    case True
    show ?thesis
    proof (cases "body_json response")
      case NotJson
      with Resolved True show ?thesis by (simp add: upload_response_not_json)
    next
      case Unreadable
      with Resolved True show ?thesis by (simp add: upload_response_unreadable)
    next
      case (Decoded payload)
      have "sent_requests (events (snd (upload_outcome payload w))) = sent_requests (events w)"
        by (cases "payload_status payload")
          (simp_all add: upload_outcome_def io_defs)
      with Resolved True Decoded show ?thesis by (simp add: upload_response_ok)
    qed
  qed
qed

text \<open>
  \<^bold>\<open>C2\<close>. When every local file can be read, uploadFiles sends one request, whose
  form is the field \<^verbatim>\<open>dir\<close> with the given directory unchanged, followed by one
  part per file in the order given, the part of the \<open>i\<close>-th file keyed
  \<^verbatim>\<open>file-i\<close> (from 1) and carrying the base name of the file, the type
  \<^verbatim>\<open>text/plain\<close> and the bytes read; no other entry is named \<^verbatim>\<open>dir\<close>.
\<close>

theorem uploadFiles_form:
  assumes "\<forall>p \<in> set localFiles. \<not> fs_fault env (ReadFile p) \<and> files w p \<noteq> None"
  shows "\<exists>parts.
    sent_requests (events (snd (uploadFiles env cfg remoteDir localFiles w))) =
      sent_requests (events w) @ [upload_request cfg ((''dir'', Field remoteDir) # parts)] \<and>
    parts = map2 (\<lambda>i p. (''file-'' @ string_of_nat i,
                          File (basename p) ''text/plain'' (the (files w p))))
              [1..<Suc (length localFiles)] localFiles \<and>
    length parts = length localFiles \<and>
    filter (\<lambda>e. fst e = ''dir'') ((''dir'', Field remoteDir) # parts) = [(''dir'', Field remoteDir)]"
proof -
  let ?w = "w\<lparr>events := events w @
      [ConsoleLog (''Uploading '' @ string_of_nat (length localFiles) @ '' file(s) to '' @ remoteDir)]\<rparr>"
  have "\<forall>p \<in> set localFiles. \<not> fs_fault env (ReadFile p) \<and> files ?w p \<noteq> None"
    using assms by simp
  note a = attach_files_readable [OF this, of "[(''dir'', Field remoteDir)]" 1, simplified]
  have nodir: "filter (\<lambda>e. fst e = ''dir'')
      (map2 (\<lambda>i p. (''file-'' @ string_of_nat i, File (basename p) ''text/plain'' (the (files w p))))
         ns ps) = []" for ns ps
  proof (induction ns arbitrary: ps)
    case Nil
    show ?case by simp
  next
    case (Cons n ns)
    then show ?case by (cases ps) simp_all
  qed
  show ?thesis
    by (auto simp add: uploadFiles_def bind_io_def console_log_def emit_def form_set_def a
        fetch_def Let_def upload_response_requests nodir Suc_le_eq split: prod.splits)
qed


theorem uploadFiles_form_witness:
  "sent_requests (events (snd (uploadFiles null_body_env demo_config ''public_html/site''
      [''/tmp/a.txt'', ''/tmp/img/logo.png'']
      (fresh_world\<lparr>files := [''/tmp/a.txt'' \<mapsto> ''hello'', ''/tmp/img/logo.png'' \<mapsto> ''PNG'']\<rparr>)))) =
   [upload_request demo_config
      [(''dir'', Field ''public_html/site''),
       (''file-1'', File ''a.txt'' ''text/plain'' ''hello''),
       (''file-2'', File ''logo.png'' ''text/plain'' ''PNG'')]]"
proof -
  have readable: "\<forall>p \<in> set [''/tmp/a.txt'', ''/tmp/img/logo.png''].
      \<not> fs_fault null_body_env (ReadFile p) \<and>
      files (fresh_world\<lparr>files := [''/tmp/a.txt'' \<mapsto> ''hello'', ''/tmp/img/logo.png'' \<mapsto> ''PNG'']\<rparr>) p \<noteq> None"
    by (simp add: null_body_env_def)
  from uploadFiles_form [OF readable, of demo_config "''public_html/site''"]
  show ?thesis
    by (simp add: fresh_world_def string_of_nat.simps digit_char_def basename_def upt_rec)
qed

subsection \<open>Runs of main\<close>

lemma digit_char_digit: "d < 10 \<Longrightarrow> digit_char d \<in> set ''0123456789''"
  unfolding digit_char_def by (rule nth_mem) simp

lemma string_of_nat_digits: "set (string_of_nat n) \<subseteq> set ''0123456789''"
proof (induction n rule: string_of_nat.induct)
  case (1 n)
  show ?case
  proof (cases "n < 10")
    case True
    then show ?thesis
      using digit_char_digit [of n] by (subst string_of_nat.simps) simp
  next
    case False
    have "n mod 10 < 10" by simp
    from digit_char_digit [OF this] 1 [OF False] False show ?thesis
      by (subst string_of_nat.simps) simp
  qed
qed

lemma padStart2_digits: "set s \<subseteq> set ''0123456789'' \<Longrightarrow> set (padStart2 s) \<subseteq> set ''0123456789''"
  by (auto simp add: padStart2_def)

lemma getTimestamp_digits: "set (getTimestamp now) \<subseteq> set ''0123456789''"
  unfolding getTimestamp_def set_append
  by (intro Un_least padStart2_digits string_of_nat_digits)

lemma getTimestamp_no_separator: "CHR ''/'' \<notin> set (getTimestamp now)"
  using getTimestamp_digits [of now] by auto

lemma basename_path_join:
  assumes "name \<noteq> []" and "CHR ''/'' \<notin> set name"
  shows "basename (path_join dir name) = name"
proof -
  from assms have "dropWhile (\<lambda>c. c = CHR ''/'') (rev name @ rest) = rev name @ rest" for rest
    by (cases name rule: rev_cases) auto
  moreover from assms(2) have "\<forall>c \<in> set (rev name). c \<noteq> CHR ''/''"
    by auto
  then have "takeWhile (\<lambda>c. c \<noteq> CHR ''/'') (rev name @ CHR ''/'' # rest) = rev name" for rest
    by (simp add: takeWhile_tail)
  moreover have "\<exists>rest. rev (path_join dir name) = rev name @ CHR ''/'' # rest"
    by (simp add: path_join_def)
  ultimately show ?thesis
    by (auto simp add: basename_def)
qed


lemma uploadFiles_single_content:
  assumes "files w p = Some content" and "\<not> fs_fault env (ReadFile p)"
  shows "uploadFiles env cfg remoteDir [p] w =
     upload_response cfg
       (net env (sent_requests (events w) @
          [upload_request cfg
             [(''dir'', Field remoteDir),
              (''file-1'', File (basename p) ''text/plain'' content)]]))
       (w\<lparr>events := events w @
          [ConsoleLog (''Uploading 1 file(s) to '' @ remoteDir),
           ConsoleLog (''  - Adding file: '' @ basename p),
           Fetch (upload_request cfg
             [(''dir'', Field remoteDir),
              (''file-1'', File (basename p) ''text/plain'' content)])]\<rparr>)"
  using assms
  by (simp add: uploadFiles_def io_defs fs_readFile_def form_set_def form_append_def Let_def
      string_of_nat.simps digit_char_def)

lemma uploadFiles_single_unreadable:
  assumes "fs_fault env (ReadFile p)"
  shows "uploadFiles env cfg remoteDir [p] w =
     (Throw SystemError,
      w\<lparr>events := events w @ [ConsoleLog (''Uploading 1 file(s) to '' @ remoteDir)]\<rparr>)"
  using assms
  by (simp add: uploadFiles_def io_defs fs_readFile_def form_set_def form_append_def Let_def
      string_of_nat.simps digit_char_def)

text \<open>
  What follows the fetch only writes console lines, and completes the same way in every
  world.
\<close>

lemma mkdir_outcome_shape:
  "\<exists>c evs. sent_requests evs = [] \<and> (c = Return True \<or> (\<exists>e. c = Throw e)) \<and>
     (\<forall>w. mkdir_outcome dirName payload w = (c, w\<lparr>events := events w @ evs\<rparr>))"
proof (cases "event_result payload")
  case (Inl e)
  then have "\<forall>w. mkdir_outcome dirName payload w = (Throw e, w\<lparr>events := events w @ []\<rparr>)"
    by (simp add: mkdir_outcome_raises)
  then show ?thesis by (intro exI [of _ "Throw e"] exI [of _ "[]"]) simp
next
  case (Inr r)
  show ?thesis
  proof (cases "r = Some (JNum (Finite 1))")
    case True
    with Inr show ?thesis
      by (intro exI [of _ "Return True"]
            exI [of _ "[ConsoleLog (check_mark @ '' Directory created successfully: '' @ dirName)]"])
         (simp add: mkdir_outcome_created)
  next
    case False
    show ?thesis
    proof (cases "reason_includes_exists payload")
      case (Inl e)
      with Inr False
      have "\<forall>w. mkdir_outcome dirName payload w = (Throw e, w\<lparr>events := events w @ []\<rparr>)"
        by (simp add: mkdir_outcome_raises)
      then show ?thesis by (intro exI [of _ "Throw e"] exI [of _ "[]"]) simp
    next
      case i: (Inr i)
      show ?thesis
      proof (cases "truthy i")
        case True
        show ?thesis
          by (intro exI [of _ "Return True"]
            exI [of _ "[ConsoleLog (check_mark @ '' Directory already exists: '' @ dirName)]"])
           (simp add: mkdir_outcome_exists [OF Inr False i True])
      next
        case f: False
        show ?thesis
          by (intro exI [of _ "Throw (Error ''Directory creation failed'')"]
            exI [of _ "[ConsoleError (cross_mark @ '' Failed to create directory: '' @ dirName),
               ConsoleErrorJson payload]"])
           (simp add: mkdir_outcome_failed [OF Inr False i f])
      qed
    qed
  qed
qed


lemma upload_outcome_shape:
  "\<exists>c evs. sent_requests evs = [] \<and> (c = Return True \<or> (\<exists>e. c = Throw e)) \<and>
     (\<forall>w. upload_outcome payload w = (c, w\<lparr>events := events w @ evs\<rparr>))"
proof (cases "payload_status payload")
  case (Inl e)
  then have "\<forall>w. upload_outcome payload w = (Throw e, w\<lparr>events := events w @ []\<rparr>)"
    by (simp add: upload_outcome_def io_defs)
  then show ?thesis by (intro exI [of _ "Throw e"] exI [of _ "[]"]) simp
next
  case (Inr s)
  show ?thesis
  proof (cases "s = Some (JNum (Finite 1))")
    case True
    with Inr show ?thesis
      by (intro exI [of _ "Return True"]
            exI [of _ "[ConsoleLog (check_mark @ '' Files uploaded successfully'')]"])
         (simp add: upload_outcome_success)
  next
    case False
    show ?thesis
      by (intro exI [of _ "Throw (Error ''File upload failed'')"]
            exI [of _ "[ConsoleError (cross_mark @ '' Upload failed''), ConsoleErrorJson payload]"])
         (simp add: upload_outcome_failed [OF Inr False])
  qed
qed

lemma mkdir_response_shape:
  "\<exists>c evs. sent_requests evs = [] \<and> (c = Return True \<or> (\<exists>e. c = Throw e)) \<and>
     (\<forall>w. mkdir_response cfg dirName fetched w = (c, w\<lparr>events := events w @ evs\<rparr>))"
proof (cases fetched)
  case (Rejected message)
  show ?thesis
    unfolding Rejected mkdir_response_Rejected
    by (intro exI conjI allI refl) simp_all
next
  case (Resolved response)
  show ?thesis
  proof (cases "ok response")
    case False
    show ?thesis
      unfolding Resolved mkdir_response_not_ok [OF False]
      by (intro exI conjI allI refl) simp_all
  next
    case True
    show ?thesis
    proof (cases "body_json response")
      case NotJson
      have "\<forall>w. mkdir_response cfg dirName fetched w =
          (Throw SyntaxError, w\<lparr>events := events w @ []\<rparr>)"
        by (simp add: Resolved mkdir_response_not_json [OF True NotJson])
      then show ?thesis by (intro exI [of _ "Throw SyntaxError"] exI [of _ "[]"]) simp
    next
      case Unreadable
      have "\<forall>w. mkdir_response cfg dirName fetched w =
          (Throw TypeError, w\<lparr>events := events w @ []\<rparr>)"
        by (simp add: Resolved mkdir_response_unreadable [OF True Unreadable])
      then show ?thesis by (intro exI [of _ "Throw TypeError"] exI [of _ "[]"]) simp
    next
      case (Decoded payload)
      show ?thesis
        unfolding Resolved mkdir_response_ok [OF True Decoded] by (rule mkdir_outcome_shape)
    qed
  qed
qed

lemma upload_response_shape:
  "\<exists>c evs. sent_requests evs = [] \<and> (c = Return True \<or> (\<exists>e. c = Throw e)) \<and>
     (\<forall>w. upload_response cfg fetched w = (c, w\<lparr>events := events w @ evs\<rparr>))"
proof (cases fetched)
  case (Rejected message)
  show ?thesis
    unfolding Rejected upload_response_Rejected
    by (intro exI conjI allI refl) simp_all
next
  case (Resolved response)
  show ?thesis
  proof (cases "ok response")
    case False
    show ?thesis
      unfolding Resolved upload_response_not_ok [OF False]
      by (intro exI conjI allI refl) simp_all
  next
    case True
    show ?thesis
    proof (cases "body_json response")
      case NotJson
      have "\<forall>w. upload_response cfg fetched w =
          (Throw SyntaxError, w\<lparr>events := events w @ []\<rparr>)"
        by (simp add: Resolved upload_response_not_json [OF True NotJson])
      then show ?thesis by (intro exI [of _ "Throw SyntaxError"] exI [of _ "[]"]) simp
    next
      case Unreadable
      have "\<forall>w. upload_response cfg fetched w =
          (Throw TypeError, w\<lparr>events := events w @ []\<rparr>)"
        by (simp add: Resolved upload_response_unreadable [OF True Unreadable])
      then show ?thesis by (intro exI [of _ "Throw TypeError"] exI [of _ "[]"]) simp
    next
      case (Decoded payload)
      show ?thesis
        unfolding Resolved upload_response_ok [OF True Decoded] by (rule upload_outcome_shape)
    qed
  qed
qed


lemma uploadFiles_single:
  assumes "files w p \<noteq> None" and "\<not> fs_fault env (ReadFile p)"
  shows "uploadFiles env cfg remoteDir [p] w =
     upload_response cfg
       (net env (sent_requests (events w) @
          [upload_request cfg
             [(''dir'', Field remoteDir),
              (''file-1'', File (basename p) ''text/plain'' (the (files w p)))]]))
       (w\<lparr>events := events w @
          [ConsoleLog (''Uploading 1 file(s) to '' @ remoteDir),
           ConsoleLog (''  - Adding file: '' @ basename p),
           Fetch (upload_request cfg
             [(''dir'', Field remoteDir),
              (''file-1'', File (basename p) ''text/plain'' (the (files w p)))])]\<rparr>)"
  using assms uploadFiles_single_content [of w p _ env cfg remoteDir] by auto

lemma generated_names [simp]:
  "basename (path_join dir (getTimestamp now @ ''.txt'')) = getTimestamp now @ ''.txt''"
  "basename (path_join dir (getTimestamp now @ ''_file2.txt'')) = getTimestamp now @ ''_file2.txt''"
  by (simp_all add: basename_path_join getTimestamp_no_separator)

lemma main_success:
  assumes fresh: "events w = []"
    and nofault: "\<forall>op. \<not> fs_fault env op"
    and up1: "fst (upload_response cfg (net env [first_upload cfg (getTimestamp now)]) w1) =
               Return True"
    and mk: "fst (mkdir_response cfg (getTimestamp now @ ''_test_dir'')
               (net env [first_upload cfg (getTimestamp now),
                         directory_creation cfg (getTimestamp now)]) w2) = Return True"
    and up2: "fst (upload_response cfg
               (net env [first_upload cfg (getTimestamp now),
                         directory_creation cfg (getTimestamp now),
                         second_upload cfg (getTimestamp now)]) w3) = Return True"
  shows "fst (main env cfg now w) = Return () \<and>
         sent_requests (events (snd (main env cfg now w))) =
           [first_upload cfg (getTimestamp now), directory_creation cfg (getTimestamp now),
            second_upload cfg (getTimestamp now)] \<and>
         dirs (snd (main env cfg now w)) =
           {p \<in> dirs w. \<not> lies_in (path_join (dirname cfg) ''temp_upload'') p}"
proof -
  obtain c1 evs1 where r1: "sent_requests evs1 = []"
    "\<forall>v. upload_response cfg (net env [first_upload cfg (getTimestamp now)]) v =
       (c1, v\<lparr>events := events v @ evs1\<rparr>)"
    using upload_response_shape by blast
  obtain c2 evs2 where r2: "sent_requests evs2 = []"
    "\<forall>v. mkdir_response cfg (getTimestamp now @ ''_test_dir'')
       (net env [first_upload cfg (getTimestamp now), directory_creation cfg (getTimestamp now)]) v =
       (c2, v\<lparr>events := events v @ evs2\<rparr>)"
    using mkdir_response_shape by blast
  obtain c3 evs3 where r3: "sent_requests evs3 = []"
    "\<forall>v. upload_response cfg
       (net env [first_upload cfg (getTimestamp now), directory_creation cfg (getTimestamp now),
                 second_upload cfg (getTimestamp now)]) v =
       (c3, v\<lparr>events := events v @ evs3\<rparr>)"
    using upload_response_shape by blast
  from up1 r1(2) have c1: "c1 = Return True" by simp
  from mk r2(2) have c2: "c2 = Return True" by simp
  from up2 r3(2) have c3: "c3 = Return True" by simp
  show ?thesis
    using fresh nofault r1 r2 r3 c1 c2 c3
    by (auto simp add: main_def Let_def bind_io_def return_io_def emit_def console_log_def
        await_def fs_mkdir_def fs_writeFile_def fs_rm_def try_catch_finally_def try_catch_def
        uploadFiles_single ensureRemoteDirectory_fetch PUBLIC_HTML_PATH_def
        first_upload_def directory_creation_def second_upload_def lies_in_def)
qed


lemmas main_defs = main_def Let_def bind_io_def return_io_def throw_io_def process_exit_def
  emit_def console_log_def console_error_def console_warn_def await_def
  fs_mkdir_def fs_writeFile_def fs_rm_def try_catch_finally_def try_catch_def
  ensureRemoteDirectory_fetch PUBLIC_HTML_PATH_def
  first_upload_def directory_creation_def second_upload_def

text \<open>
  How a run of \<open>main\<close> ends, whatever the provider and the file system do: the
  promise is rejected when the temporary directory cannot be made; the process exits
  with code 1 from the \<^verbatim>\<open>catch\<close> block, and then the temporary directory is still
  there; or \<open>main\<close> returns, and then the directory is gone, unless its removal was
  rejected, which is only warned about.
\<close>

lemma main_ends:
  fixes env cfg now w
  defines "tempDir \<equiv> path_join (dirname cfg) ''temp_upload''"
  shows "(fst (main env cfg now w) = Throw SystemError \<and> fs_fault env (Mkdir tempDir)) \<or>
         (fst (main env cfg now w) = Exit 1 \<and> tempDir \<in> dirs (snd (main env cfg now w))) \<or>
         (fst (main env cfg now w) = Return () \<and>
            (if fs_fault env (Rm tempDir)
             then tempDir \<in> dirs (snd (main env cfg now w)) \<and>
                  last (events (snd (main env cfg now w))) =
                    ConsoleWarn ''Warning: Could not clean up temporary files''
             else tempDir \<notin> dirs (snd (main env cfg now w))))"
proof -
  let ?ts = "getTimestamp now"
  let ?file1 = "path_join tempDir (?ts @ ''.txt'')"
  let ?file2 = "path_join tempDir (?ts @ ''_file2.txt'')"
  let ?h1 = "sent_requests (events w) @ [first_upload cfg ?ts]"
  let ?h2 = "sent_requests (events w) @ [first_upload cfg ?ts, directory_creation cfg ?ts]"
  let ?h3 = "sent_requests (events w) @
      [first_upload cfg ?ts, directory_creation cfg ?ts, second_upload cfg ?ts]"
  obtain c1 evs1 where r1: "sent_requests evs1 = []" "c1 = Return True \<or> (\<exists>e. c1 = Throw e)"
    "\<forall>v. upload_response cfg (net env ?h1) v = (c1, v\<lparr>events := events v @ evs1\<rparr>)"
    using upload_response_shape by blast
  obtain c2 evs2 where r2: "sent_requests evs2 = []" "c2 = Return True \<or> (\<exists>e. c2 = Throw e)"
    "\<forall>v. mkdir_response cfg (?ts @ ''_test_dir'') (net env ?h2) v =
       (c2, v\<lparr>events := events v @ evs2\<rparr>)"
    using mkdir_response_shape by blast
  obtain c3 evs3 where r3: "sent_requests evs3 = []" "c3 = Return True \<or> (\<exists>e. c3 = Throw e)"
    "\<forall>v. upload_response cfg (net env ?h3) v = (c3, v\<lparr>events := events v @ evs3\<rparr>)"
    using upload_response_shape by blast
  note facts = r1(1,3) r2(1,3) r3(1,3)
  note defs = main_defs uploadFiles_single uploadFiles_single_unreadable tempDir_def
    lies_in_def
  consider (no_dir) "fs_fault env (Mkdir tempDir)"
    | (no_file1) "\<not> fs_fault env (Mkdir tempDir)" "fs_fault env (WriteFile ?file1 ''hello world'')"
    | (no_read1) "\<not> fs_fault env (Mkdir tempDir)" "\<not> fs_fault env (WriteFile ?file1 ''hello world'')"
        "fs_fault env (ReadFile ?file1)"
    | (sent1) "\<not> fs_fault env (Mkdir tempDir)" "\<not> fs_fault env (WriteFile ?file1 ''hello world'')"
        "\<not> fs_fault env (ReadFile ?file1)"
    by blast
  then show ?thesis
  proof cases
    case no_dir
    then show ?thesis by (simp add: defs)
  next
    case no_file1
    then show ?thesis by (simp add: defs)
  next
    case no_read1
    then show ?thesis by (simp add: defs)
  next
    case sent1
    from r1(2) show ?thesis
    proof
      assume "\<exists>e. c1 = Throw e"
      then obtain e where "c1 = Throw e" ..
      with sent1 facts show ?thesis by (simp add: defs)
    next
      assume c1: "c1 = Return True"
      from r2(2) show ?thesis
      proof
        assume "\<exists>e. c2 = Throw e"
        then obtain e where "c2 = Throw e" ..
        with sent1 c1 facts show ?thesis by (simp add: defs)
      next
        assume c2: "c2 = Return True"
        consider (no_file2) "fs_fault env (WriteFile ?file2 ''hello world'')"
          | (no_read2) "\<not> fs_fault env (WriteFile ?file2 ''hello world'')"
              "fs_fault env (ReadFile ?file2)"
          | (sent2) "\<not> fs_fault env (WriteFile ?file2 ''hello world'')"
              "\<not> fs_fault env (ReadFile ?file2)"
          by blast
        then show ?thesis
        proof cases
          case no_file2
          with sent1 c1 c2 facts show ?thesis by (simp add: defs)
        next
          case no_read2
          with sent1 c1 c2 facts show ?thesis by (simp add: defs)
        next
          case sent2
          from r3(2) show ?thesis
          proof
            assume "\<exists>e. c3 = Throw e"
            then obtain e where "c3 = Throw e" ..
            with sent1 sent2 c1 c2 facts show ?thesis by (simp add: defs)
          next
            assume c3: "c3 = Return True"
            with sent1 sent2 c1 c2 facts show ?thesis by (simp add: defs)
          qed
        qed
      qed
    qed
  qed
qed

lemma main_exit_keeps_directory:
  "fst (main env cfg now w) = Exit c \<Longrightarrow>
   c = 1 \<and> path_join (dirname cfg) ''temp_upload'' \<in> dirs (snd (main env cfg now w))"
  using main_ends [of env cfg now w] by auto

lemma main_return_cleans:
  "fst (main env cfg now w) = Return () \<Longrightarrow>
   \<not> fs_fault env (Rm (path_join (dirname cfg) ''temp_upload'')) \<Longrightarrow>
   path_join (dirname cfg) ''temp_upload'' \<notin> dirs (snd (main env cfg now w))"
  using main_ends [of env cfg now w] by auto

text \<open>
  \<^bold>\<open>C8\<close>. The claim: on every terminating run, the failure paths included, the
  temporary directory is removed before the process ends. When the provider cannot be
  reached, the first upload throws, the \<^verbatim>\<open>catch\<close> block ends the process with
  \<^verbatim>\<open>process.exit(1)\<close>, and the \<^verbatim>\<open>finally\<close> block with the removal never
  runs: the directory and the file written into it are still there.
\<close>

theorem failure_leaves_temporary_directory:
  "fst (main offline_env cfg now w) = Exit 1 \<and>
   path_join (dirname cfg) ''temp_upload'' \<in> dirs (snd (main offline_env cfg now w)) \<and>
   files (snd (main offline_env cfg now w))
     (path_join (path_join (dirname cfg) ''temp_upload'') (getTimestamp now @ ''.txt'')) =
     Some ''hello world''"
  by (simp add: main_defs uploadFiles_single upload_response_Rejected offline_env_def)

lemma main_directory_failure:
  assumes fresh: "events w = []"
    and mk: "fst (mkdir_response cfg (getTimestamp now @ ''_test_dir'')
               (net env [first_upload cfg (getTimestamp now),
                         directory_creation cfg (getTimestamp now)]) w') = Throw e"
  shows "exit_code (fst (main env cfg now w)) = 1 \<and>
         sent_requests (events (snd (main env cfg now w))) \<in>
           {[], [first_upload cfg (getTimestamp now)],
            [first_upload cfg (getTimestamp now), directory_creation cfg (getTimestamp now)]}"
proof -
  let ?tempDir = "path_join (dirname cfg) ''temp_upload''"
  let ?file1 = "path_join ?tempDir (getTimestamp now @ ''.txt'')"
  obtain c1 evs1 where r1: "sent_requests evs1 = []" "c1 = Return True \<or> (\<exists>e. c1 = Throw e)"
    "\<forall>v. upload_response cfg (net env [first_upload cfg (getTimestamp now)]) v =
       (c1, v\<lparr>events := events v @ evs1\<rparr>)"
    using upload_response_shape by blast
  obtain c2 evs2 where r2: "sent_requests evs2 = []"
    "\<forall>v. mkdir_response cfg (getTimestamp now @ ''_test_dir'')
       (net env [first_upload cfg (getTimestamp now), directory_creation cfg (getTimestamp now)]) v =
       (c2, v\<lparr>events := events v @ evs2\<rparr>)"
    using mkdir_response_shape by blast
  from mk r2(2) have c2: "c2 = Throw e" by simp
  consider (no_dir) "fs_fault env (Mkdir ?tempDir)"
    | (no_file) "\<not> fs_fault env (Mkdir ?tempDir)" "fs_fault env (WriteFile ?file1 ''hello world'')"
    | (no_read) "\<not> fs_fault env (Mkdir ?tempDir)" "\<not> fs_fault env (WriteFile ?file1 ''hello world'')"
        "fs_fault env (ReadFile ?file1)"
    | (sent) "\<not> fs_fault env (Mkdir ?tempDir)" "\<not> fs_fault env (WriteFile ?file1 ''hello world'')"
        "\<not> fs_fault env (ReadFile ?file1)"
    by blast
  then show ?thesis
  proof cases
    case no_dir
    with fresh show ?thesis by (simp add: main_defs)
  next
    case no_file
    with fresh show ?thesis by (simp add: main_defs)
  next
    case no_read
    with fresh show ?thesis by (simp add: main_defs uploadFiles_single_unreadable)
  next
    case sent
    from r1(2) show ?thesis
    proof
      assume "c1 = Return True"
      with sent fresh r1(1,3) r2 c2 show ?thesis
        by (simp add: main_defs uploadFiles_single)
    next
      assume "\<exists>e. c1 = Throw e"
      then obtain e1 where "c1 = Throw e1" ..
      with sent fresh r1(1,3) show ?thesis
        by (simp add: main_defs uploadFiles_single)
    qed
  qed
qed

text \<open>
  \<^bold>\<open>C5\<close>. In a run that starts with an empty trace, in which no file system call is
  rejected and the provider's answer to each of the three requests is one on which the
  operation returns Success, the requests of the run are, in this order: the upload of
  the file \<open>timestamp.txt\<close> with the content \<^verbatim>\<open>hello world\<close> into
  \<^verbatim>\<open>public_html\<close>; the creation of \<open>timestamp_test_dir\<close> under
  \<open>HOME_BASE/user/public_html\<close>; the upload of \<open>timestamp_file2.txt\<close> with the
  same content into \<open>public_html/timestamp_test_dir\<close>. Then \<open>main\<close> returns and
  the exit code is 0. Every parameter is a function of the time stamp and the
  configuration.
\<close>

theorem orchestrated_run:
  assumes "events w = []"
    and "\<forall>op. \<not> fs_fault env op"
    and "fst (upload_response cfg (net env [first_upload cfg (getTimestamp now)]) w1) =
           Return True"
    and "fst (mkdir_response cfg (getTimestamp now @ ''_test_dir'')
           (net env [first_upload cfg (getTimestamp now),
                     directory_creation cfg (getTimestamp now)]) w2) = Return True"
    and "fst (upload_response cfg
           (net env [first_upload cfg (getTimestamp now),
                     directory_creation cfg (getTimestamp now),
                     second_upload cfg (getTimestamp now)]) w3) = Return True"
  shows "sent_requests (events (snd (main env cfg now w))) =
           [upload_request cfg
              [(''dir'', Field ''public_html''),
               (''file-1'', File (getTimestamp now @ ''.txt'') ''text/plain'' ''hello world'')],
            mkdir_request cfg (HOME_BASE cfg @ ''/'' @ CPANEL_USER cfg @ ''/public_html'')
              (getTimestamp now @ ''_test_dir''),
            upload_request cfg
              [(''dir'', Field (''public_html/'' @ getTimestamp now @ ''_test_dir'')),
               (''file-1'', File (getTimestamp now @ ''_file2.txt'') ''text/plain''
                  ''hello world'')]] \<and>
         fst (main env cfg now w) = Return () \<and>
         exit_code (fst (main env cfg now w)) = 0"
  using main_success [OF assms]
  by (simp add: first_upload_def directory_creation_def second_upload_def)

lemma accepting_env_answers:
  "fst (upload_response cfg (net accepting_env [first_upload cfg ts]) w) = Return True"
  "fst (mkdir_response cfg dirName
     (net accepting_env [first_upload cfg ts, directory_creation cfg ts]) w) = Return True"
  "fst (upload_response cfg
     (net accepting_env [first_upload cfg ts, directory_creation cfg ts, second_upload cfg ts])
     w) = Return True"
  by (simp_all add: accepting_env_def ok_response_def first_upload_def directory_creation_def
      second_upload_def upload_request_def mkdir_request_def upload_response_def
      mkdir_response_def ok_def io_defs upload_outcome_def mkdir_outcome_def probe_defs
      created_payload_def)

lemma demo_timestamp: "getTimestamp demo_now = ''20240105130709''"
  by (simp add: getTimestamp_def demo_now_def padStart2_def string_of_nat.simps digit_char_def)

theorem orchestrated_run_witness:
  "sent_requests (events (snd (main accepting_env demo_config demo_now fresh_world))) =
     [upload_request demo_config
        [(''dir'', Field ''public_html''),
         (''file-1'', File ''20240105130709.txt'' ''text/plain'' ''hello world'')],
      mkdir_request demo_config ''/home2/bob/public_html'' ''20240105130709_test_dir'',
      upload_request demo_config
        [(''dir'', Field ''public_html/20240105130709_test_dir''),
         (''file-1'', File ''20240105130709_file2.txt'' ''text/plain'' ''hello world'')]] \<and>
   exit_code (fst (main accepting_env demo_config demo_now fresh_world)) = 0"
proof -
  have fresh: "events fresh_world = []"
    by (simp add: fresh_world_def)
  have nofault: "\<forall>op. \<not> fs_fault accepting_env op"
    by (simp add: accepting_env_def)
  from orchestrated_run [OF fresh nofault accepting_env_answers]
  show ?thesis
    by (simp add: demo_timestamp demo_config_def HOME_BASE_def)
qed


text \<open>
  The orchestrator does not start with a directory creation, and creates one directory
  only: against a provider that accepts everything, the operations of the run are not
  createDirectory, uploadFiles, createDirectory, uploadFiles.
\<close>

theorem operation_sequence_counterexample:
  "map operation_of
     (sent_requests (events (snd (main accepting_env demo_config demo_now fresh_world)))) \<noteq>
   [CreateDirectory, UploadFiles, CreateDirectory, UploadFiles]"
proof -
  have fresh: "events fresh_world = []"
    by (simp add: fresh_world_def)
  have nofault: "\<forall>op. \<not> fs_fault accepting_env op"
    by (simp add: accepting_env_def)
  from main_success [OF fresh nofault accepting_env_answers]
  show ?thesis
    by simp
qed

text \<open>
  \<^bold>\<open>C9\<close>, amended. In a fully successful run the orchestrator calls uploadFiles (into
  the web root), then createDirectory for the nested directory, then uploadFiles into the
  nested directory, and one time stamp is used in all the generated names of the run.
\<close>

theorem operation_sequence:
  assumes "events w = []"
    and "\<forall>op. \<not> fs_fault env op"
    and "fst (upload_response cfg (net env [first_upload cfg (getTimestamp now)]) w1) =
           Return True"
    and "fst (mkdir_response cfg (getTimestamp now @ ''_test_dir'')
           (net env [first_upload cfg (getTimestamp now),
                     directory_creation cfg (getTimestamp now)]) w2) = Return True"
    and "fst (upload_response cfg
           (net env [first_upload cfg (getTimestamp now),
                     directory_creation cfg (getTimestamp now),
                     second_upload cfg (getTimestamp now)]) w3) = Return True"
  shows "map operation_of (sent_requests (events (snd (main env cfg now w)))) =
           [UploadFiles, CreateDirectory, UploadFiles] \<and>
         (\<exists>timestamp.
            sent_requests (events (snd (main env cfg now w))) =
              [first_upload cfg timestamp, directory_creation cfg timestamp,
               second_upload cfg timestamp])"
proof -
  from main_success [OF assms]
  have reqs: "sent_requests (events (snd (main env cfg now w))) =
      [first_upload cfg (getTimestamp now), directory_creation cfg (getTimestamp now),
       second_upload cfg (getTimestamp now)]"
    by simp
  have "map operation_of
      [first_upload cfg (getTimestamp now), directory_creation cfg (getTimestamp now),
       second_upload cfg (getTimestamp now)] = [UploadFiles, CreateDirectory, UploadFiles]"
    by (simp add: operation_of_def first_upload_def directory_creation_def second_upload_def
        upload_request_def mkdir_request_def)
  with reqs show ?thesis
    by (simp only: simp_thms) blast
qed

theorem operation_sequence_witness:
  "map operation_of
     (sent_requests (events (snd (main accepting_env demo_config demo_now fresh_world)))) =
   [UploadFiles, CreateDirectory, UploadFiles]"
proof -
  have fresh: "events fresh_world = []"
    by (simp add: fresh_world_def)
  have nofault: "\<forall>op. \<not> fs_fault accepting_env op"
    by (simp add: accepting_env_def)
  from operation_sequence [OF fresh nofault accepting_env_answers]
  show ?thesis
    by (rule conjunct1)
qed

text \<open>
  \<^bold>\<open>C4\<close>. In every run that starts with an empty trace and in which the provider's
  answer to the directory creation is one on which createDirectory fails, the exit code
  is 1 and the requests of the run are at most the first upload and the directory
  creation: no request carries a form for the new directory, so the upload of the second
  file is never attempted.
\<close>

theorem directory_failure_aborts:
  assumes "events w = []"
    and "fst (mkdir_response cfg (getTimestamp now @ ''_test_dir'')
           (net env [first_upload cfg (getTimestamp now),
                     directory_creation cfg (getTimestamp now)]) w') = Throw e"
  shows "exit_code (fst (main env cfg now w)) = 1 \<and>
         sent_requests (events (snd (main env cfg now w))) \<in>
           {[], [first_upload cfg (getTimestamp now)],
            [first_upload cfg (getTimestamp now), directory_creation cfg (getTimestamp now)]} \<and>
         (\<forall>r \<in> set (sent_requests (events (snd (main env cfg now w)))). \<forall>form.
            body r = Some form \<longrightarrow>
            (''dir'', Field (''public_html/'' @ getTimestamp now @ ''_test_dir'')) \<notin> set form)"
proof -
  note run = main_directory_failure [OF assms]
  then have sent: "set (sent_requests (events (snd (main env cfg now w)))) \<subseteq>
      {first_upload cfg (getTimestamp now), directory_creation cfg (getTimestamp now)}"
    by auto
  have "\<forall>r \<in> {first_upload cfg (getTimestamp now), directory_creation cfg (getTimestamp now)}.
      \<forall>form. body r = Some form \<longrightarrow>
        (''dir'', Field (''public_html/'' @ getTimestamp now @ ''_test_dir'')) \<notin> set form"
    by (auto simp add: first_upload_def directory_creation_def upload_request_def
        mkdir_request_def)
  with sent have "\<forall>r \<in> set (sent_requests (events (snd (main env cfg now w)))).
      \<forall>form. body r = Some form \<longrightarrow>
        (''dir'', Field (''public_html/'' @ getTimestamp now @ ''_test_dir'')) \<notin> set form"
    by blast
  with run show ?thesis
    by (simp only: simp_thms)
qed

lemma refusing_env_answer:
  "fst (mkdir_response cfg dirName
     (net refusing_env [first_upload cfg ts, directory_creation cfg ts]) w) =
   Throw (Error ''Directory creation failed'')"
  by (simp add: refusing_env_def ok_response_def first_upload_def directory_creation_def
      upload_request_def mkdir_request_def mkdir_response_def ok_def io_defs mkdir_outcome_def
      probe_defs failure_payload_def sublist_Cons_right)

theorem directory_failure_aborts_witness:
  "exit_code (fst (main refusing_env demo_config demo_now fresh_world)) = 1 \<and>
   sent_requests (events (snd (main refusing_env demo_config demo_now fresh_world))) \<in>
     {[], [first_upload demo_config (getTimestamp demo_now)],
      [first_upload demo_config (getTimestamp demo_now),
       directory_creation demo_config (getTimestamp demo_now)]}"
proof -
  have fresh: "events fresh_world = []"
    by (simp add: fresh_world_def)
  from directory_failure_aborts [OF fresh refusing_env_answer]
  show ?thesis
    by blast
qed

end
